theory Spec2Isabelle
  imports Complex_Main
begin

section \<open>JavaScript numbers and values\<close>

text \<open>
  A JavaScript number is modelled as a real number or one of the three non-finite values of
  IEEE 754. Finite arithmetic is exact (no rounding, no overflow to infinity, no signed
  zero); every operation that leaves the finite range in JavaScript for a reason other than
  rounding (a division by zero, an operation on \<open>NaN\<close> or on an infinity) does so here.
\<close>

datatype jsnum = Fin real | PInf | NInf | NaN

fun js_neg :: "jsnum \<Rightarrow> jsnum" where
  "js_neg (Fin a) = Fin (- a)"
| "js_neg PInf = NInf"
| "js_neg NInf = PInf"
| "js_neg NaN = NaN"

fun js_add :: "jsnum \<Rightarrow> jsnum \<Rightarrow> jsnum" where
  "js_add (Fin a) (Fin b) = Fin (a + b)"
| "js_add (Fin a) PInf = PInf"
| "js_add (Fin a) NInf = NInf"
| "js_add PInf (Fin b) = PInf"
| "js_add PInf PInf = PInf"
| "js_add PInf NInf = NaN"
| "js_add NInf (Fin b) = NInf"
| "js_add NInf PInf = NaN"
| "js_add NInf NInf = NInf"
| "js_add NaN y = NaN"
| "js_add x NaN = NaN"

definition js_sub :: "jsnum \<Rightarrow> jsnum \<Rightarrow> jsnum" where
  "js_sub x y = js_add x (js_neg y)"

fun js_mul :: "jsnum \<Rightarrow> jsnum \<Rightarrow> jsnum" where
  "js_mul (Fin a) (Fin b) = Fin (a * b)"
| "js_mul (Fin a) PInf = (if a = 0 then NaN else if 0 < a then PInf else NInf)"
| "js_mul (Fin a) NInf = (if a = 0 then NaN else if 0 < a then NInf else PInf)"
| "js_mul PInf (Fin b) = (if b = 0 then NaN else if 0 < b then PInf else NInf)"
| "js_mul NInf (Fin b) = (if b = 0 then NaN else if 0 < b then NInf else PInf)"
| "js_mul PInf PInf = PInf"
| "js_mul PInf NInf = NInf"
| "js_mul NInf PInf = NInf"
| "js_mul NInf NInf = PInf"
| "js_mul NaN y = NaN"
| "js_mul x NaN = NaN"

text \<open>Division: \<open>0/0\<close> is \<open>NaN\<close>, \<open>x/0\<close> is an infinity with the sign of \<open>x\<close>.\<close>

fun js_div :: "jsnum \<Rightarrow> jsnum \<Rightarrow> jsnum" where
  "js_div (Fin a) (Fin b) =
     (if b = 0 then (if a = 0 then NaN else if 0 < a then PInf else NInf) else Fin (a / b))"
| "js_div (Fin a) PInf = Fin 0"
| "js_div (Fin a) NInf = Fin 0"
| "js_div PInf (Fin b) = (if 0 \<le> b then PInf else NInf)"
| "js_div NInf (Fin b) = (if 0 \<le> b then NInf else PInf)"
| "js_div PInf PInf = NaN"
| "js_div PInf NInf = NaN"
| "js_div NInf PInf = NaN"
| "js_div NInf NInf = NaN"
| "js_div NaN y = NaN"
| "js_div x NaN = NaN"

text \<open>\<open>Math.max\<close> and \<open>Math.min\<close> of two numbers; \<open>NaN\<close> is contagious.\<close>

fun js_max :: "jsnum \<Rightarrow> jsnum \<Rightarrow> jsnum" where
  "js_max (Fin a) (Fin b) = Fin (max a b)"
| "js_max (Fin a) PInf = PInf"
| "js_max (Fin a) NInf = Fin a"
| "js_max PInf (Fin b) = PInf"
| "js_max PInf PInf = PInf"
| "js_max PInf NInf = PInf"
| "js_max NInf (Fin b) = Fin b"
| "js_max NInf PInf = PInf"
| "js_max NInf NInf = NInf"
| "js_max NaN y = NaN"
| "js_max x NaN = NaN"

fun js_min :: "jsnum \<Rightarrow> jsnum \<Rightarrow> jsnum" where
  "js_min (Fin a) (Fin b) = Fin (min a b)"
| "js_min (Fin a) PInf = Fin a"
| "js_min (Fin a) NInf = NInf"
| "js_min PInf (Fin b) = Fin b"
| "js_min PInf PInf = PInf"
| "js_min PInf NInf = NInf"
| "js_min NInf (Fin b) = NInf"
| "js_min NInf PInf = NInf"
| "js_min NInf NInf = NInf"
| "js_min NaN y = NaN"
| "js_min x NaN = NaN"

text \<open>\<open>Math.max(...xs)\<close> starts from \<open>-Infinity\<close>, \<open>Math.min(...xs)\<close> from \<open>Infinity\<close>.\<close>

definition math_max :: "jsnum list \<Rightarrow> jsnum" where
  "math_max xs = foldl js_max NInf xs"

definition math_min :: "jsnum list \<Rightarrow> jsnum" where
  "math_min xs = foldl js_min PInf xs"

fun is_finite :: "jsnum \<Rightarrow> bool" where
  "is_finite (Fin a) = True"
| "is_finite x = False"

text \<open>
  The elements of the indicator arrays: a number, \<open>null\<close>, or \<open>undefined\<close> (what
  a read past the end of an array returns).
\<close>

datatype jsval = Num jsnum | Null | Undefined

fun to_number :: "jsval \<Rightarrow> jsnum" where
  "to_number (Num x) = x"
| "to_number Null = Fin 0"
| "to_number Undefined = NaN"

text \<open>Truthiness: \<open>null\<close>, \<open>undefined\<close>, \<open>0\<close> and \<open>NaN\<close> are falsy.\<close>

fun truthy :: "jsval \<Rightarrow> bool" where
  "truthy (Num (Fin a)) = (a \<noteq> 0)"
| "truthy (Num PInf) = True"
| "truthy (Num NInf) = True"
| "truthy (Num NaN) = False"
| "truthy Null = False"
| "truthy Undefined = False"

text \<open>\<open>xs[i]\<close> for any integer \<open>i\<close>: \<open>undefined\<close> out of range.\<close>

definition js_nth :: "jsval list \<Rightarrow> int \<Rightarrow> jsval" where
  "js_nth xs i = (if 0 \<le> i \<and> i < int (length xs) then xs ! nat i else Undefined)"

text \<open>\<open>xs.slice(start, end)\<close> and \<open>xs.slice(start)\<close>, negative indices counting from the end.\<close>

definition slice_index :: "nat \<Rightarrow> int \<Rightarrow> nat" where
  "slice_index n i = (if i < 0 then nat (max (int n + i) 0) else nat (min i (int n)))"

definition js_slice :: "'a list \<Rightarrow> int \<Rightarrow> int \<Rightarrow> 'a list" where
  "js_slice xs start end = drop (slice_index (length xs) start) (take (slice_index (length xs) end) xs)"

definition js_slice_from :: "'a list \<Rightarrow> int \<Rightarrow> 'a list" where
  "js_slice_from xs start = drop (slice_index (length xs) start) xs"

section \<open>Indicator engine: \<open>DataCalculator\<close>\<close>

subsection \<open>\<open>calculateEMA\<close>\<close>

text \<open>\<open>prices.find(price => price !== null)\<close>: the first element that is not \<open>null\<close>.\<close>

fun find_not_null :: "jsval list \<Rightarrow> jsval" where
  "find_not_null [] = Undefined"
| "find_not_null (p # ps) = (if p \<noteq> Null then p else find_not_null ps)"

definition ema_next :: "jsnum \<Rightarrow> jsval \<Rightarrow> jsval \<Rightarrow> jsval" where
  "ema_next multiplier price ema =
     Num (js_add (js_mul (to_number price) multiplier)
                 (js_mul (to_number ema) (js_sub (Fin 1) multiplier)))"

text \<open>
  The loop of \<open>calculateEMA\<close> over the remaining prices, with the array \<open>result\<close> built so
  far and the variable \<open>ema\<close>.
\<close>

fun ema_loop :: "jsnum \<Rightarrow> jsval list \<Rightarrow> jsval list \<Rightarrow> jsval \<Rightarrow> jsval list" where
  "ema_loop multiplier [] result ema = result"
| "ema_loop multiplier (p # ps) result ema =
     (if p = Null then ema_loop multiplier ps (result @ [Null]) ema
      else if length result = 0 then ema_loop multiplier ps (result @ [p]) p
      else ema_loop multiplier ps (result @ [ema_next multiplier p ema]) (ema_next multiplier p ema))"

definition ema_multiplier :: "jsnum \<Rightarrow> jsnum" where
  "ema_multiplier period = js_div (Fin 2) (js_add period (Fin 1))"

definition calculateEMA :: "jsval list \<Rightarrow> jsnum \<Rightarrow> jsval list" where
  "calculateEMA prices period =
     ema_loop (ema_multiplier period) prices [] (find_not_null prices)"

definition is_num :: "jsval \<Rightarrow> bool" where
  "is_num v = (case v of Num x \<Rightarrow> True | _ \<Rightarrow> False)"

subsection \<open>\<open>calculateMACD\<close>\<close>

text \<open>\<open>xs.map((value, index) => f(value, index))\<close>.\<close>

definition map_index :: "('a \<Rightarrow> nat \<Rightarrow> 'b) \<Rightarrow> 'a list \<Rightarrow> 'b list" where
  "map_index f xs = map (\<lambda>index. f (xs ! index) index) [0..<length xs]"

text \<open>The object \<open>{ dif, dea, macd }\<close> that \<open>calculateMACD\<close> returns.\<close>

record macd_result =
  macd_dif :: "jsval list"
  macd_dea :: "jsval list"
  macd_macd :: "jsval list"

text \<open>The two \<open>map\<close> calls of \<open>calculateMACD\<close>: the \<open>dif\<close> and the \<open>macd\<close> arrays.\<close>

definition dif_values :: "jsval list \<Rightarrow> jsval list \<Rightarrow> jsval list" where
  "dif_values ema12 ema26 =
     map_index (\<lambda>value index.
        if value \<noteq> Null \<and> js_nth ema26 (int index) \<noteq> Null
        then Num (js_sub (to_number value) (to_number (js_nth ema26 (int index))))
        else Null) ema12"

definition macd_values :: "jsval list \<Rightarrow> jsval list \<Rightarrow> jsval list" where
  "macd_values dif dea =
     map_index (\<lambda>difValue index.
        if difValue \<noteq> Null \<and> js_nth dea (int index) \<noteq> Null
        then Num (js_mul (Fin 2) (js_sub (to_number difValue) (to_number (js_nth dea (int index)))))
        else Null) dif"

definition calculateMACD :: "jsval list \<Rightarrow> jsnum \<Rightarrow> jsnum \<Rightarrow> jsnum \<Rightarrow> macd_result" where
  "calculateMACD prices fastPeriod slowPeriod signalPeriod =
     (let ema12 = calculateEMA prices fastPeriod;
          ema26 = calculateEMA prices slowPeriod;
          dif = dif_values ema12 ema26;
          dea = calculateEMA (filter (\<lambda>v. v \<noteq> Null) dif) signalPeriod;
          macd = macd_values dif dea
      in \<lparr>macd_dif = dif, macd_dea = dea, macd_macd = macd\<rparr>)"

subsection \<open>\<open>calculateKDJ\<close>\<close>

text \<open>The object \<open>{ k, d, j, rsv }\<close> that \<open>calculateKDJ\<close> returns, also the loop's state.\<close>

record kdj_result =
  kdj_k :: "jsval list"
  kdj_d :: "jsval list"
  kdj_j :: "jsval list"
  kdj_rsv :: "jsval list"

text \<open>\<open>v || dflt\<close>, read as a number afterwards.\<close>

definition or_default :: "jsval \<Rightarrow> jsnum \<Rightarrow> jsnum" where
  "or_default v dflt = (if truthy v then to_number v else dflt)"

text \<open>\<open>highestHigh\<close>, \<open>lowestLow\<close> and \<open>currentRSV\<close> of iteration \<open>i\<close>.\<close>

definition highestHigh :: "jsnum list \<Rightarrow> nat \<Rightarrow> nat \<Rightarrow> jsnum" where
  "highestHigh highs period i = math_max (js_slice highs (int i - int period + 1) (int i + 1))"

definition lowestLow :: "jsnum list \<Rightarrow> nat \<Rightarrow> nat \<Rightarrow> jsnum" where
  "lowestLow lows period i = math_min (js_slice lows (int i - int period + 1) (int i + 1))"

definition currentRSV :: "jsnum list \<Rightarrow> jsnum list \<Rightarrow> jsnum list \<Rightarrow> nat \<Rightarrow> nat \<Rightarrow> jsnum" where
  "currentRSV highs lows closes period i =
     js_mul (js_div (js_sub (closes ! i) (lowestLow lows period i))
                    (js_sub (highestHigh highs period i) (lowestLow lows period i)))
            (Fin 100)"

text \<open>
  One iteration of the loop, for an index \<open>i\<close> below \<open>closes.length\<close> (so \<open>closes[i]\<close>
  is in range). The period is a natural number.
\<close>

definition kdj_step ::
  "jsnum list \<Rightarrow> jsnum list \<Rightarrow> jsnum list \<Rightarrow> nat \<Rightarrow> kdj_result \<Rightarrow> nat \<Rightarrow> kdj_result" where
  "kdj_step highs lows closes period st i =
     (if int i < int period - 1
      then \<lparr>kdj_k = kdj_k st @ [Null], kdj_d = kdj_d st @ [Null],
            kdj_j = kdj_j st @ [Null], kdj_rsv = kdj_rsv st @ [Null]\<rparr>
      else
        (let rsv = currentRSV highs lows closes period i;
             prevK = or_default (js_nth (kdj_k st) (int i - 1)) (Fin 50);
             currentK = js_div (js_add (js_mul (Fin 2) prevK) rsv) (Fin 3);
             prevD = or_default (js_nth (kdj_d st) (int i - 1)) (Fin 50);
             currentD = js_div (js_add (js_mul (Fin 2) prevD) currentK) (Fin 3);
             currentJ = js_sub (js_mul (Fin 3) currentK) (js_mul (Fin 2) currentD)
         in \<lparr>kdj_k = kdj_k st @ [Num currentK], kdj_d = kdj_d st @ [Num currentD],
              kdj_j = kdj_j st @ [Num currentJ], kdj_rsv = kdj_rsv st @ [Num rsv]\<rparr>))"

text \<open>The loop after its first \<open>n\<close> iterations.\<close>

definition kdj_run :: "jsnum list \<Rightarrow> jsnum list \<Rightarrow> jsnum list \<Rightarrow> nat \<Rightarrow> nat \<Rightarrow> kdj_result" where
  "kdj_run highs lows closes period n =
     foldl (kdj_step highs lows closes period)
       \<lparr>kdj_k = [], kdj_d = [], kdj_j = [], kdj_rsv = []\<rparr> [0..<n]"

definition calculateKDJ :: "jsnum list \<Rightarrow> jsnum list \<Rightarrow> jsnum list \<Rightarrow> nat \<Rightarrow> kdj_result" where
  "calculateKDJ highs lows closes period = kdj_run highs lows closes period (length closes)"

text \<open>An output entry that is \<open>null\<close> or a finite number.\<close>

fun null_or_finite :: "jsval \<Rightarrow> bool" where
  "null_or_finite (Num x) = is_finite x"
| "null_or_finite Null = True"
| "null_or_finite Undefined = False"

text \<open>
  The window of the specification: the last \<open>period\<close> points of a sequence up to and
  including index \<open>i\<close>.
\<close>

definition window :: "real list \<Rightarrow> nat \<Rightarrow> nat \<Rightarrow> real list" where
  "window xs period i = drop (Suc i - period) (take (Suc i) xs)"

section \<open>Packets: JSON values\<close>

text \<open>
  The values a packet is made of. An object is the list of its own properties in the order
  in which \<open>Object.entries\<close> lists them (integer-like keys first, the others in insertion
  order), with distinct keys.
\<close>

datatype json =
    JUndefined
  | JNull
  | JBool bool
  | JNumber jsnum
  | JString string
  | JArray "json list"
  | JObject "(string \<times> json) list"

fun json_truthy :: "json \<Rightarrow> bool" where
  "json_truthy JUndefined = False"
| "json_truthy JNull = False"
| "json_truthy (JBool b) = b"
| "json_truthy (JNumber x) = truthy (Num x)"
| "json_truthy (JString s) = (s \<noteq> [])"
| "json_truthy (JArray xs) = True"
| "json_truthy (JObject kvs) = True"

text \<open>\<open>typeof v === 'object'\<close>: \<open>null\<close>, arrays and objects.\<close>

fun typeof_object :: "json \<Rightarrow> bool" where
  "typeof_object JNull = True"
| "typeof_object (JArray xs) = True"
| "typeof_object (JObject kvs) = True"
| "typeof_object v = False"

text \<open>
  \<open>v.name\<close> for one of the packet's field names, on a value that is neither \<open>null\<close> nor
  \<open>undefined\<close> (the callers test that first): an object's own property, and \<open>undefined\<close>
  on a missing property, an array or a primitive.
\<close>

fun get_prop :: "json \<Rightarrow> string \<Rightarrow> json" where
  "get_prop (JObject kvs) name = (case map_of kvs name of Some v \<Rightarrow> v | None \<Rightarrow> JUndefined)"
| "get_prop v name = JUndefined"

text \<open>\<open>v?.name\<close>.\<close>

definition optional_prop :: "json \<Rightarrow> string \<Rightarrow> json" where
  "optional_prop v name = (if v = JNull \<or> v = JUndefined then JUndefined else get_prop v name)"

fun is_array :: "json \<Rightarrow> bool" where
  "is_array (JArray xs) = True"
| "is_array v = False"

text \<open>The decimal digits of a natural number: the index keys of arrays and strings.\<close>

definition digit_char :: "nat \<Rightarrow> char" where
  "digit_char d = char_of (of_char CHR ''0'' + d)"

fun index_key :: "nat \<Rightarrow> string" where
  "index_key n =
     (if 10 \<le> n then index_key (n div 10) @ [digit_char (n mod 10)] else [digit_char n])"

definition index_entries :: "json list \<Rightarrow> (string \<times> json) list" where
  "index_entries xs = zip (map index_key [0..<length xs]) xs"

text \<open>
  \<open>Object.entries(v)\<close>: the properties of an object, the indexed elements of an array,
  the indexed characters of a string, nothing for a number or a boolean.
\<close>

fun object_entries :: "json \<Rightarrow> (string \<times> json) list" where
  "object_entries (JObject kvs) = kvs"
| "object_entries (JArray xs) = index_entries xs"
| "object_entries (JString s) = index_entries (map (\<lambda>c. JString [c]) s)"
| "object_entries v = []"

text \<open>
  Iterating a value with \<open>for ... of\<close> or an array pattern: the elements of an array, the
  characters of a string, and a \<open>TypeError\<close> (\<open>None\<close>) for anything else.
\<close>

fun js_iterate :: "json \<Rightarrow> json list option" where
  "js_iterate (JArray xs) = Some xs"
| "js_iterate (JString s) = Some (map (\<lambda>c. JString [c]) s)"
| "js_iterate v = None"

text \<open>\<open>const [a, b] = v\<close>: missing elements are \<open>undefined\<close>.\<close>

definition destructure_pair :: "json \<Rightarrow> (json \<times> json) option" where
  "destructure_pair v =
     map_option (\<lambda>xs. (if 0 < length xs then xs ! 0 else JUndefined,
                         if 1 < length xs then xs ! 1 else JUndefined))
       (js_iterate v)"

section \<open>Streaming buffers\<close>

text \<open>
  The limit both chart classes apply to a series after a push:
  \<open>if (xs.length > maxPoints) xs = xs.slice(-maxPoints)\<close>.
\<close>

definition limit_points :: "nat \<Rightarrow> 'a list \<Rightarrow> 'a list" where
  "limit_points maxPoints xs =
     (if length xs > maxPoints then js_slice_from xs (- int maxPoints) else xs)"


text \<open>A call that returned, or threw after changing the state.\<close>

datatype 'a outcome = Done 'a | Threw 'a

fun state_of :: "'a outcome \<Rightarrow> 'a" where
  "state_of (Done s) = s"
| "state_of (Threw s) = s"

subsection \<open>\<open>ChartsManager\<close>\<close>

text \<open>
  \<open>dataBuffer.ppie\<close> and \<open>dataBuffer.vvie\<close> map a series name to its points (the own
  properties of the two objects). A chart is \<open>None\<close> when its container was missing (the
  field is \<open>null\<close>), and otherwise holds the series data last passed to \<open>setOption\<close>.
  \<open>cm_argumentLimit\<close> is not a field of the class: it is the bound of the JavaScript
  engine on the number of arguments of one call, beyond which \<open>push(...value)\<close> throws a
  \<open>RangeError\<close>.
\<close>

record charts_manager =
  cm_isInitialized :: bool
  cm_maxDataPoints :: nat
  cm_argumentLimit :: nat
  cm_ppie :: "string \<rightharpoonup> json list"
  cm_vvie :: "string \<rightharpoonup> json list"
  cm_ppieChart :: "json list option list option"
  cm_vvieChart :: "json list option list option"

text \<open>
  The names every object inherits from \<open>Object.prototype\<close>. Each of them reads as a truthy
  value that has no \<open>push\<close> method.
\<close>

definition object_prototype_keys :: "string list" where
  "object_prototype_keys =
     [''constructor'', ''toString'', ''toLocaleString'', ''valueOf'', ''hasOwnProperty'',
      ''isPrototypeOf'', ''propertyIsEnumerable'', ''__proto__'', ''__defineGetter__'',
      ''__defineSetter__'', ''__lookupGetter__'', ''__lookupSetter__'']"

text \<open>
  One iteration of \<open>for (const [key, value] of Object.entries(ppieData))\<close>:
  \<open>if (buffer[key] && Array.isArray(value)) { buffer[key].push(...value); limit }\<close>. For a
  key that is no series of the buffer, \<open>buffer[key]\<close> is \<open>undefined\<close>, or the inherited value
  when the key is a name of \<open>Object.prototype\<close>; calling its missing \<open>push\<close> throws a
  \<open>TypeError\<close>.
\<close>

definition push_entry ::
  "nat \<Rightarrow> nat \<Rightarrow> (string \<rightharpoonup> json list) \<Rightarrow> string \<times> json \<Rightarrow> (string \<rightharpoonup> json list) outcome" where
  "push_entry argumentLimit maxDataPoints buffer entry =
     (case buffer (fst entry) of
        Some cur \<Rightarrow>
          (case snd entry of
             JArray vs \<Rightarrow>
               if argumentLimit < length vs then Threw buffer
               else Done (buffer(fst entry \<mapsto> limit_points maxDataPoints (cur @ vs)))
           | _ \<Rightarrow> Done buffer)
      | None \<Rightarrow>
          if fst entry \<in> set object_prototype_keys \<and> is_array (snd entry) then Threw buffer
          else Done buffer)"

text \<open>The loop over the entries: a throw ends it, with the appends made so far kept.\<close>

fun push_entries ::
  "nat \<Rightarrow> nat \<Rightarrow> (string \<rightharpoonup> json list) \<Rightarrow> (string \<times> json) list \<Rightarrow> (string \<rightharpoonup> json list) outcome" where
  "push_entries argumentLimit maxDataPoints buffer [] = Done buffer"
| "push_entries argumentLimit maxDataPoints buffer (entry # entries) =
     (case push_entry argumentLimit maxDataPoints buffer entry of
        Threw b \<Rightarrow> Threw b
      | Done b \<Rightarrow> push_entries argumentLimit maxDataPoints b entries)"

text \<open>
  \<open>setOption\<close> on a chart that is \<open>null\<close> throws a \<open>TypeError\<close>, after the buffer has
  been updated.
\<close>

definition updatePPIEData :: "charts_manager \<Rightarrow> (string \<times> json) list \<Rightarrow> charts_manager outcome" where
  "updatePPIEData cm ppieData =
     (case push_entries (cm_argumentLimit cm) (cm_maxDataPoints cm) (cm_ppie cm) ppieData of
        Threw buffer \<Rightarrow> Threw (cm\<lparr>cm_ppie := buffer\<rparr>)
      | Done buffer \<Rightarrow>
          (case cm_ppieChart cm of
             None \<Rightarrow> Threw (cm\<lparr>cm_ppie := buffer\<rparr>)
           | Some shown \<Rightarrow>
               Done (cm\<lparr>cm_ppie := buffer,
                        cm_ppieChart :=
                          Some (map buffer [''p_data'', ''pib_data'', ''psd_data'', ''peb_data''])\<rparr>)))"

definition updateVVIEData :: "charts_manager \<Rightarrow> (string \<times> json) list \<Rightarrow> charts_manager outcome" where
  "updateVVIEData cm vvieData =
     (case push_entries (cm_argumentLimit cm) (cm_maxDataPoints cm) (cm_vvie cm) vvieData of
        Threw buffer \<Rightarrow> Threw (cm\<lparr>cm_vvie := buffer\<rparr>)
      | Done buffer \<Rightarrow>
          (case cm_vvieChart cm of
             None \<Rightarrow> Threw (cm\<lparr>cm_vvie := buffer\<rparr>)
           | Some shown \<Rightarrow>
               Done (cm\<lparr>cm_vvie := buffer,
                        cm_vvieChart :=
                          Some (map buffer [''v_data'', ''vib_data'', ''vsd_data'', ''veb_data''])\<rparr>)))"

text \<open>
  \<open>ChartsManager.updateChartsData\<close>: the \<open>try\<close> block ends at the first throw, and the
  \<open>catch\<close> logs it. For a packet that is \<open>null\<close> or \<open>undefined\<close> the first property
  read throws and nothing is updated; here such a packet has no groups, to the same
  effect.
\<close>

definition cm_updateChartsData :: "charts_manager \<Rightarrow> json \<Rightarrow> charts_manager" where
  "cm_updateChartsData cm newData =
     (if \<not> cm_isInitialized cm then cm
      else
        (case (if json_truthy (get_prop newData ''ppie_group'')
               then updatePPIEData cm (object_entries (get_prop newData ''ppie_group''))
               else Done cm) of
           Threw cm1 \<Rightarrow> cm1
         | Done cm1 \<Rightarrow>
             (if json_truthy (get_prop newData ''vvie_group'')
              then state_of (updateVVIEData cm1 (object_entries (get_prop newData ''vvie_group'')))
              else cm1)))"







subsection \<open>\<open>GridController\<close>\<close>

record grid1_buffer =
  p_data :: "json list"
  pib_data :: "json list"
  psd_data :: "json list"
  peb_data :: "json list"

record grid2_buffer =
  v_data :: "json list"
  vib_data :: "json list"
  vsd_data :: "json list"
  veb_data :: "json list"

datatype grid_id = Grid1 | Grid2

record grid_controller =
  gc_isInitialized :: bool
  gc_isUpdating :: bool
  gc_grid1 :: grid1_buffer
  gc_grid2 :: grid2_buffer
  gc_maxDataPoints :: nat
  gc_chart1 :: "json list list option"
  gc_chart2 :: "json list list option"
  gc_grid1Visible :: bool
  gc_grid2Visible :: bool
  gc_updateCount :: nat
  gc_errorCount :: nat

definition limitDataBuffer :: "grid_controller \<Rightarrow> grid_id \<Rightarrow> grid_controller" where
  "limitDataBuffer gc gridId =
     (let maxPoints = gc_maxDataPoints gc in
      case gridId of
        Grid1 \<Rightarrow> gc\<lparr>gc_grid1 :=
          \<lparr>p_data = limit_points maxPoints (p_data (gc_grid1 gc)),
           pib_data = limit_points maxPoints (pib_data (gc_grid1 gc)),
           psd_data = limit_points maxPoints (psd_data (gc_grid1 gc)),
           peb_data = limit_points maxPoints (peb_data (gc_grid1 gc))\<rparr>\<rparr>
      | Grid2 \<Rightarrow> gc\<lparr>gc_grid2 :=
          \<lparr>v_data = limit_points maxPoints (v_data (gc_grid2 gc)),
           vib_data = limit_points maxPoints (vib_data (gc_grid2 gc)),
           vsd_data = limit_points maxPoints (vsd_data (gc_grid2 gc)),
           veb_data = limit_points maxPoints (veb_data (gc_grid2 gc))\<rparr>\<rparr>)"

text \<open>\<open>metadata?.timestamp || Date.now()\<close>, the clock reading given as \<open>now\<close>.\<close>

definition point_timestamp :: "json \<Rightarrow> real \<Rightarrow> json" where
  "point_timestamp metadata now =
     (if json_truthy (optional_prop metadata ''timestamp'')
      then optional_prop metadata ''timestamp'' else JNumber (Fin now))"

text \<open>\<open>if (obj.F !== undefined) series.push([timestamp, obj.F])\<close>.\<close>

definition push_field :: "json \<Rightarrow> string \<Rightarrow> json \<Rightarrow> json list \<Rightarrow> json list" where
  "push_field obj name timestamp series =
     (if get_prop obj name \<noteq> JUndefined
      then series @ [JArray [timestamp, get_prop obj name]] else series)"

definition updateGrid1Data :: "grid_controller \<Rightarrow> json \<Rightarrow> json \<Rightarrow> real \<Rightarrow> grid_controller" where
  "updateGrid1Data gc ppieData metadata now =
     (let timestamp = point_timestamp metadata now;
          b = gc_grid1 gc;
          gc1 = limitDataBuffer
                  (gc\<lparr>gc_grid1 :=
                     \<lparr>p_data = push_field ppieData ''P'' timestamp (p_data b),
                      pib_data = push_field ppieData ''PIB'' timestamp (pib_data b),
                      psd_data = push_field ppieData ''PSD'' timestamp (psd_data b),
                      peb_data = push_field ppieData ''PEB'' timestamp (peb_data b)\<rparr>\<rparr>) Grid1
      in gc1\<lparr>gc_chart1 := Some [p_data (gc_grid1 gc1), pib_data (gc_grid1 gc1),
                                psd_data (gc_grid1 gc1), peb_data (gc_grid1 gc1)]\<rparr>)"

definition updateGrid2Data :: "grid_controller \<Rightarrow> json \<Rightarrow> json \<Rightarrow> real \<Rightarrow> grid_controller" where
  "updateGrid2Data gc vvieData metadata now =
     (let timestamp = point_timestamp metadata now;
          b = gc_grid2 gc;
          gc1 = limitDataBuffer
                  (gc\<lparr>gc_grid2 :=
                     \<lparr>v_data = push_field vvieData ''V'' timestamp (v_data b),
                      vib_data = push_field vvieData ''VIB'' timestamp (vib_data b),
                      vsd_data = push_field vvieData ''VSD'' timestamp (vsd_data b),
                      veb_data = push_field vvieData ''VEB'' timestamp (veb_data b)\<rparr>\<rparr>) Grid2
      in gc1\<lparr>gc_chart2 := Some [v_data (gc_grid2 gc1), vib_data (gc_grid2 gc1),
                                vsd_data (gc_grid2 gc1), veb_data (gc_grid2 gc1)]\<rparr>)"

definition validateDataFormat :: "json \<Rightarrow> bool" where
  "validateDataFormat data =
     (if \<not> json_truthy data \<or> \<not> typeof_object data then False
      else json_truthy (get_prop data ''ppie'') \<or> json_truthy (get_prop data ''vvie''))"

text \<open>
  \<open>GridController.updateChartsData\<close>. The listeners of \<open>onDataUpdate\<close> run inside the
  cycle, before the \<open>finally\<close> block clears \<open>isUpdating\<close>; each is a function of the
  controller's state, and what a listener throws is caught by \<open>triggerEvent\<close>. The chart
  library's \<open>setOption\<close> is taken not to throw on a chart that exists.
\<close>

definition gc_updateChartsData ::
  "grid_controller \<Rightarrow> json \<Rightarrow> real \<Rightarrow> (grid_controller \<Rightarrow> grid_controller) list \<Rightarrow> bool \<times> grid_controller" where
  "gc_updateChartsData gc data now listeners =
     (if \<not> gc_isInitialized gc \<or> gc_isUpdating gc then (False, gc)
      else
        (let g0 = gc\<lparr>gc_isUpdating := True\<rparr> in
         if \<not> validateDataFormat data then (False, g0\<lparr>gc_isUpdating := False\<rparr>)
         else
           (let g1 = (if json_truthy (get_prop data ''ppie'') \<and> gc_chart1 g0 \<noteq> None \<and> gc_grid1Visible g0
                      then updateGrid1Data g0 (get_prop data ''ppie'') (get_prop data ''metadata'') now
                      else g0);
                g2 = (if json_truthy (get_prop data ''vvie'') \<and> gc_chart2 g1 \<noteq> None \<and> gc_grid2Visible g1
                      then updateGrid2Data g1 (get_prop data ''vvie'') (get_prop data ''metadata'') now
                      else g1);
                g3 = g2\<lparr>gc_updateCount := gc_updateCount g2 + 1\<rparr>;
                g4 = foldl (\<lambda>g listener. listener g) g3 listeners
            in (True, g4\<lparr>gc_isUpdating := False\<rparr>))))"

text \<open>
  The controller the constructor builds, once \<open>init\<close> has created both charts: empty
  buffers, at most 1000 points a series, both grids visible.
\<close>

definition grid_controller_ready :: grid_controller where
  "grid_controller_ready =
     \<lparr>gc_isInitialized = True, gc_isUpdating = False,
      gc_grid1 = \<lparr>p_data = [], pib_data = [], psd_data = [], peb_data = []\<rparr>,
      gc_grid2 = \<lparr>v_data = [], vib_data = [], vsd_data = [], veb_data = []\<rparr>,
      gc_maxDataPoints = 1000, gc_chart1 = Some [], gc_chart2 = Some [],
      gc_grid1Visible = True, gc_grid2Visible = True,
      gc_updateCount = 0, gc_errorCount = 0\<rparr>"

text \<open>
  The \<open>ChartsManager\<close> the constructor builds, with both chart containers present, on an
  engine that takes 65535 arguments in a call.
\<close>

definition charts_manager_ready :: charts_manager where
  "charts_manager_ready =
     \<lparr>cm_isInitialized = True, cm_maxDataPoints = 1000, cm_argumentLimit = 65535,
      cm_ppie = [''p_data'' \<mapsto> [], ''pib_data'' \<mapsto> [], ''psd_data'' \<mapsto> [], ''peb_data'' \<mapsto> []],
      cm_vvie = [''v_data'' \<mapsto> [], ''vib_data'' \<mapsto> [], ''vsd_data'' \<mapsto> [], ''veb_data'' \<mapsto> []],
      cm_ppieChart = Some [], cm_vvieChart = Some []\<rparr>"

section \<open>Connection manager: \<open>WebSocketManager\<close>\<close>

text \<open>The status strings passed to \<open>updateConnectionStatus\<close>.\<close>

datatype connection_status =
  StConnected | StConnecting | StDisconnected | StReconnecting | StError | StFailed

text \<open>
  The fields of the manager that the connection logic reads and writes, with three
  observations of its effects: the status last passed to \<open>updateConnectionStatus\<close>, the
  delays of the \<open>setTimeout\<close> calls of \<open>scheduleReconnect\<close> in order, and the values handed
  to the \<open>onData\<close> listeners in order (by \<open>handleRealtimeData\<close> and by
  \<open>handleHistoryResponse\<close>).
\<close>

record websocket_manager =
  isConnected :: bool
  isConnecting :: bool
  reconnectAttempts :: nat
  maxReconnectAttempts :: nat
  reconnectDelay :: nat
  maxReconnectDelay :: nat
  receivedDataCount :: nat
  connection_status :: "connection_status option"
  reconnect_timers :: "nat list"
  onData_events :: "json list"

text \<open>The state the constructor builds.\<close>

definition websocket_manager_new :: websocket_manager where
  "websocket_manager_new =
     \<lparr>isConnected = False, isConnecting = False, reconnectAttempts = 0,
      maxReconnectAttempts = 10, reconnectDelay = 1000, maxReconnectDelay = 30000,
      receivedDataCount = 0, connection_status = None, reconnect_timers = [],
      onData_events = []\<rparr>"

definition updateConnectionStatus :: "websocket_manager \<Rightarrow> connection_status \<Rightarrow> websocket_manager" where
  "updateConnectionStatus s st = s\<lparr>connection_status := Some st\<rparr>"

text \<open>
  \<open>connect()\<close>: the request goes to the transport, whose answer arrives later as a
  \<open>connect\<close> or a \<open>connect_error\<close> event.
\<close>

definition connect :: "websocket_manager \<Rightarrow> websocket_manager" where
  "connect s =
     (if isConnected s \<or> isConnecting s then s
      else updateConnectionStatus (s\<lparr>isConnecting := True\<rparr>) StConnecting)"

definition disconnect :: "websocket_manager \<Rightarrow> websocket_manager" where
  "disconnect s =
     (if \<not> isConnected s \<and> \<not> isConnecting s then s
      else updateConnectionStatus (s\<lparr>isConnected := False, isConnecting := False\<rparr>) StDisconnected)"

definition scheduleReconnect :: "websocket_manager \<Rightarrow> websocket_manager" where
  "scheduleReconnect s =
     (if reconnectAttempts s \<ge> maxReconnectAttempts s then updateConnectionStatus s StFailed
      else
        (let s1 = s\<lparr>reconnectAttempts := reconnectAttempts s + 1\<rparr>;
             delay = min (reconnectDelay s1 * 2 ^ (reconnectAttempts s1 - 1)) (maxReconnectDelay s1);
             s2 = updateConnectionStatus s1 StReconnecting
         in s2\<lparr>reconnect_timers := reconnect_timers s2 @ [delay]\<rparr>))"

text \<open>The callback of the timer that \<open>scheduleReconnect\<close> sets.\<close>

definition reconnect_timer_fired :: "websocket_manager \<Rightarrow> websocket_manager" where
  "reconnect_timer_fired s = (if \<not> isConnected s then connect s else s)"

text \<open>The handlers of the socket's \<open>connect\<close>, \<open>disconnect\<close> and \<open>connect_error\<close> events.\<close>

definition on_connect :: "websocket_manager \<Rightarrow> websocket_manager" where
  "on_connect s =
     updateConnectionStatus
       (s\<lparr>isConnected := True, isConnecting := False, reconnectAttempts := 0\<rparr>) StConnected"

definition on_disconnect :: "websocket_manager \<Rightarrow> string \<Rightarrow> websocket_manager" where
  "on_disconnect s reason =
     (let s1 = updateConnectionStatus (s\<lparr>isConnected := False, isConnecting := False\<rparr>) StDisconnected
      in if reason \<noteq> ''io client disconnect'' then scheduleReconnect s1 else s1)"

definition on_connect_error :: "websocket_manager \<Rightarrow> websocket_manager" where
  "on_connect_error s =
     scheduleReconnect (updateConnectionStatus (s\<lparr>isConnecting := False\<rparr>) StError)"

text \<open>
  The manager after \<open>connect()\<close> and \<open>k\<close> consecutive failed attempts: the first attempt
  ends in a \<open>connect_error\<close>, and so does each later one, made when the timer of the
  previous failure fires.
\<close>

fun after_failures :: "nat \<Rightarrow> websocket_manager" where
  "after_failures 0 = connect websocket_manager_new"
| "after_failures (Suc 0) = on_connect_error (connect websocket_manager_new)"
| "after_failures (Suc (Suc k)) = on_connect_error (reconnect_timer_fired (after_failures (Suc k)))"

text \<open>The delay of the specification for the \<open>k\<close>-th attempt.\<close>

definition backoff_delay :: "nat \<Rightarrow> nat \<Rightarrow> nat \<Rightarrow> nat" where
  "backoff_delay baseDelay maxDelay k = min (baseDelay * 2 ^ (k - 1)) maxDelay"

subsection \<open>Packet validation\<close>



text \<open>
  \<open>handleHistoryResponse\<close>: the data of a response with status \<open>'success'\<close> goes to the
  \<open>onData\<close> listeners as it is; any other response, and a response that is \<open>null\<close> or
  \<open>undefined\<close> (reading its status throws), raises an error event only.
\<close>

definition handleHistoryResponse :: "websocket_manager \<Rightarrow> json \<Rightarrow> websocket_manager" where
  "handleHistoryResponse s response =
     (if response \<noteq> JNull \<and> response \<noteq> JUndefined
         \<and> get_prop response ''status'' = JString ''success''
      then s\<lparr>onData_events := onData_events s @ [get_prop response ''data'']\<rparr>
      else s)"








section \<open>Persistence: \<open>DatabaseManager\<close>\<close>

text \<open>A row of the \<open>realtime_series\<close> table.\<close>

record realtime_record =
  rec_timestamp :: json
  rec_series_name :: string
  rec_value :: json
  rec_trading_session :: json
  rec_sequence_id :: json
  rec_data_group :: string

text \<open>
  The manager with the two tables the pipeline writes: \<open>realtime_series\<close> and, as the
  event types logged, \<open>connection_logs\<close>. The store is taken to accept every write.
\<close>

record database_manager =
  db_isInitialized :: bool
  realtime_series :: "realtime_record list"
  connection_logs :: "string list"
  totalRecords :: nat

text \<open>\<open>s.replace(pat, rep)\<close> with a string pattern: the first occurrence only.\<close>

fun replace_first :: "string \<Rightarrow> string \<Rightarrow> string \<Rightarrow> string" where
  "replace_first pat rep [] = (if pat = [] then rep else [])"
| "replace_first pat rep (c # cs) =
     (if take (length pat) (c # cs) = pat then rep @ drop (length pat) (c # cs)
      else c # replace_first pat rep cs)"

text \<open>\<open>s.toUpperCase()\<close> on the letters a to z.\<close>

definition to_upper :: "string \<Rightarrow> string" where
  "to_upper s =
     map (\<lambda>c. if 97 \<le> (of_char c :: nat) \<and> (of_char c :: nat) \<le> 122
               then char_of ((of_char c :: nat) - 32) else c) s"

text \<open>
  The records of one series group, or \<open>None\<close> when building them throws (a group that is
  \<open>null\<close> or \<open>undefined\<close>, a series or a point that cannot be iterated).
\<close>

definition group_records :: "json \<Rightarrow> json \<Rightarrow> string \<Rightarrow> json \<Rightarrow> realtime_record list option" where
  "group_records trading_session sequence_id data_group grp =
     (if grp = JNull \<or> grp = JUndefined then None
      else map_option concat (those (map (\<lambda>entry.
             case js_iterate (snd entry) of
               None \<Rightarrow> None
             | Some dataPoints \<Rightarrow>
                 those (map (\<lambda>point.
                   map_option (\<lambda>pair.
                     \<lparr>rec_timestamp = fst pair,
                      rec_series_name = to_upper (replace_first ''_data'' [] (fst entry)),
                      rec_value = snd pair,
                      rec_trading_session = trading_session,
                      rec_sequence_id = sequence_id,
                      rec_data_group = data_group\<rparr>) (destructure_pair point)) dataPoints))
           (object_entries grp))))"

text \<open>
  \<open>saveRealtimeData\<close>: when building the records throws, the promise is rejected and
  nothing is written.
\<close>

definition saveRealtimeData :: "database_manager \<Rightarrow> json \<Rightarrow> database_manager" where
  "saveRealtimeData db dataPacket =
     (if \<not> db_isInitialized db then db
      else if dataPacket = JNull \<or> dataPacket = JUndefined then db
      else if get_prop dataPacket ''metadata'' = JNull \<or> get_prop dataPacket ''metadata'' = JUndefined
      then db
      else
        (let metadata = get_prop dataPacket ''metadata'';
             trading_session = (if json_truthy (get_prop metadata ''trading_session'')
                                then get_prop metadata ''trading_session'' else JString []);
             sequence_id = get_prop metadata ''sequence_id''
         in case group_records trading_session sequence_id ''PPIE'' (get_prop dataPacket ''ppie_group'') of
              None \<Rightarrow> db
            | Some ppie \<Rightarrow>
               (case group_records trading_session sequence_id ''VVIE'' (get_prop dataPacket ''vvie_group'') of
                  None \<Rightarrow> db
                | Some vvie \<Rightarrow>
                    db\<lparr>realtime_series := realtime_series db @ ppie @ vvie,
                       totalRecords := totalRecords db + length (ppie @ vvie)\<rparr>)))"

definition logConnection :: "database_manager \<Rightarrow> string \<Rightarrow> database_manager" where
  "logConnection db eventType =
     (if \<not> db_isInitialized db then db
      else db\<lparr>connection_logs := connection_logs db @ [eventType]\<rparr>)"

section \<open>Pipeline coordinator: \<open>Application\<close> and \<open>DualGridApplication\<close>\<close>

text \<open>
  The application of \<open>main.js\<close>: the global flag \<open>window.isDataUpdatePaused\<close>, the
  statistics, and the chart and database modules (\<open>None\<close> for a module that is \<open>null\<close>).
\<close>

record application =
  isDataUpdatePaused :: bool
  totalDataReceived :: nat
  totalErrors :: nat
  app_charts :: "charts_manager option"
  app_database :: "database_manager option"

text \<open>
  \<open>handleError\<close> logs the error with \<open>logConnection\<close> and then calls \<open>logEvent\<close>, which
  logs it once more.
\<close>

definition handleError :: "application \<Rightarrow> application" where
  "handleError app =
     app\<lparr>totalErrors := totalErrors app + 1,
         app_database :=
           map_option (\<lambda>db. logConnection (logConnection db ''error'') ''error'') (app_database app)\<rparr>"

text \<open>
  \<open>Application.handleRealtimeData\<close>. Reading \<open>data.metadata\<close> throws when the packet is
  \<open>null\<close> or \<open>undefined\<close>, and the \<open>catch\<close> calls \<open>handleError\<close>.
\<close>

definition app_handleRealtimeData :: "application \<Rightarrow> json \<Rightarrow> application" where
  "app_handleRealtimeData app data =
     (if isDataUpdatePaused app then app
      else
        (let a1 = app\<lparr>totalDataReceived := totalDataReceived app + 1\<rparr>;
             a2 = a1\<lparr>app_charts := map_option (\<lambda>cm. cm_updateChartsData cm data) (app_charts a1)\<rparr>;
             a3 = a2\<lparr>app_database := map_option (\<lambda>db. saveRealtimeData db data) (app_database a2)\<rparr>
         in if data = JNull \<or> data = JUndefined then handleError a3 else a3))"

text \<open>The application of the dual-grid page, with the \<open>GridController\<close> as its chart module.\<close>

record dual_grid_application =
  dual_isDataUpdatePaused :: bool
  dual_totalDataReceived :: nat
  dual_totalErrors :: nat
  dual_debugMode :: bool
  dual_gridController :: "grid_controller option"
  dual_database :: "database_manager option"

definition dual_handleError :: "dual_grid_application \<Rightarrow> dual_grid_application" where
  "dual_handleError app =
     app\<lparr>dual_totalErrors := dual_totalErrors app + 1,
         dual_database :=
           map_option (\<lambda>db. logConnection (logConnection db ''error'') ''error'') (dual_database app)\<rparr>"

text \<open>
  \<open>DualGridApplication.handleRealtimeData\<close>, the clock reading of the update given as
  \<open>now\<close>. Its \<open>onDataUpdate\<close> listener only notifies the toolbar. The debug log reads
  \<open>data.metadata\<close>, which throws when the packet is \<open>null\<close> or \<open>undefined\<close>.
\<close>

definition dual_handleRealtimeData :: "dual_grid_application \<Rightarrow> json \<times> real \<Rightarrow> dual_grid_application" where
  "dual_handleRealtimeData app packet =
     (if dual_isDataUpdatePaused app then app
      else
        (let data = fst packet;
             a1 = app\<lparr>dual_totalDataReceived := dual_totalDataReceived app + 1\<rparr>;
             a2 = a1\<lparr>dual_gridController :=
                       map_option (\<lambda>gc. snd (gc_updateChartsData gc data (snd packet) []))
                         (dual_gridController a1)\<rparr>;
             a3 = a2\<lparr>dual_database := map_option (\<lambda>db. saveRealtimeData db data) (dual_database a2)\<rparr>
         in if dual_debugMode a3 \<and> (data = JNull \<or> data = JUndefined) then dual_handleError a3 else a3))"

text \<open>A packet with one point of \<open>p_data\<close>, and the pages as they start, unpaused.\<close>

definition one_point_packet :: "real \<Rightarrow> real \<Rightarrow> json" where
  "one_point_packet t v =
     JObject [(''metadata'', JObject [(''timestamp'', JNumber (Fin t)), (''sequence_id'', JNumber (Fin 1))]),
              (''ppie_group'', JObject [(''p_data'', JArray [JArray [JNumber (Fin t), JNumber (Fin v)]]),
                                        (''pib_data'', JArray []), (''psd_data'', JArray []),
                                        (''peb_data'', JArray [])]),
              (''vvie_group'', JObject [(''v_data'', JArray []), (''vib_data'', JArray []),
                                        (''vsd_data'', JArray []), (''veb_data'', JArray [])])]"

definition application_ready :: application where
  "application_ready =
     \<lparr>isDataUpdatePaused = False, totalDataReceived = 0, totalErrors = 0,
      app_charts = Some charts_manager_ready,
      app_database = Some \<lparr>db_isInitialized = True, realtime_series = [], connection_logs = [],
                             totalRecords = 0\<rparr>\<rparr>"

section \<open>Properties of \<open>calculateEMA\<close>\<close>

lemma ema_loop_length:
  "length (ema_loop m ps result ema) = length result + length ps"
  by (induction ps arbitrary: result ema) auto

lemma ema_loop_prefix:
  "i < length result \<Longrightarrow> ema_loop m ps result ema ! i = result ! i"
  by (induction ps arbitrary: result ema) (auto simp: nth_append)

lemma ema_loop_rec:
  assumes "\<forall>v\<in>set ps. v \<noteq> Null" "result \<noteq> []" "ema = last result" "j < length ps"
  shows "ema_loop m ps result ema ! (length result + j) =
         ema_next m (ps ! j) (ema_loop m ps result ema ! (length result + j - 1))"
  using assms
proof (induction ps arbitrary: result ema j)
  case Nil
  then show ?case by simp
next
  case (Cons p ps)
  let ?e = "ema_next m p ema"
  let ?r = "result @ [?e]"
  have step: "ema_loop m (p # ps) result ema = ema_loop m ps ?r ?e"
    using Cons.prems by simp
  show ?case
  proof (cases j)
    case 0
    have a: "ema_loop m ps ?r ?e ! length result = ?e"
      by (simp add: ema_loop_prefix)
    have b: "ema_loop m ps ?r ?e ! (length result - 1) = last result"
      using Cons.prems(2) by (simp add: ema_loop_prefix nth_append last_conv_nth)
    show ?thesis unfolding step using 0 a b Cons.prems(3) by simp
  next
    case (Suc j')
    have "ema_loop m ps ?r ?e ! (length ?r + j') =
          ema_next m (ps ! j') (ema_loop m ps ?r ?e ! (length ?r + j' - 1))"
      using Cons.prems Suc by (intro Cons.IH) auto
    then show ?thesis unfolding step using Suc by simp
  qed
qed

lemma ema_loop_is_num:
  assumes "\<forall>v\<in>set ps. is_num v" "\<forall>v\<in>set result. is_num v" "i < length result + length ps"
  shows "is_num (ema_loop m ps result ema ! i)"
  using assms
proof (induction ps arbitrary: result ema)
  case Nil
  then show ?case by simp
next
  case (Cons p ps)
  have e: "is_num (ema_next m p ema)" by (simp add: is_num_def ema_next_def)
  have p: "is_num p" "p \<noteq> Null" using Cons.prems(1) by (auto simp: is_num_def)
  show ?case
  proof (cases "length result = 0")
    case True
    have "is_num (ema_loop m ps (result @ [p]) p ! i)"
      using Cons.prems p by (intro Cons.IH) auto
    then show ?thesis using True p by simp
  next
    case False
    have "is_num (ema_loop m ps (result @ [ema_next m p ema]) (ema_next m p ema) ! i)"
      using Cons.prems e by (intro Cons.IH) auto
    then show ?thesis using False p by simp
  qed
qed

lemma calculateEMA_length: "length (calculateEMA prices period) = length prices"
  by (simp add: calculateEMA_def ema_loop_length)

lemma calculateEMA_numeric_unfold:
  assumes "is_num p"
  shows "calculateEMA (p # ps) period = ema_loop (ema_multiplier period) ps [p] p"
  using assms by (auto simp: calculateEMA_def is_num_def split: jsval.splits)

text \<open>
  Claim C7. For every non-empty input sequence of numbers, \<open>calculateEMA\<close> with period \<open>p\<close>
  uses the multiplier \<open>2 / (p + 1)\<close>, its first output is the first input, every later
  output is \<open>input[i] * \<alpha> + ema[i-1] * (1 - \<alpha>)\<close>, and no output is \<open>null\<close> (each one is a
  number); with period 3 the inputs \<open>[10, 12, 11, 13, 15]\<close> give \<open>[10, 11, 11, 12, 13.5]\<close>.
\<close>

theorem calculateEMA_recurrence:
  assumes "prices \<noteq> []" and "\<forall>v\<in>set prices. is_num v"
  shows "(\<forall>p. p \<noteq> - 1 \<longrightarrow> ema_multiplier (Fin p) = Fin (2 / (p + 1)))
       \<and> length (calculateEMA prices period) = length prices
       \<and> calculateEMA prices period ! 0 = prices ! 0
       \<and> (\<forall>i. Suc i < length prices \<longrightarrow>
             calculateEMA prices period ! Suc i =
               Num (js_add (js_mul (to_number (prices ! Suc i)) (ema_multiplier period))
                           (js_mul (to_number (calculateEMA prices period ! i))
                                   (js_sub (Fin 1) (ema_multiplier period)))))
       \<and> (\<forall>i < length prices. is_num (calculateEMA prices period ! i))
       \<and> calculateEMA [Num (Fin 10), Num (Fin 12), Num (Fin 11), Num (Fin 13), Num (Fin 15)] (Fin 3)
           = [Num (Fin 10), Num (Fin 11), Num (Fin 11), Num (Fin 12), Num (Fin 13.5)]"
proof -
  obtain p0 ps where prices: "prices = p0 # ps"
    using assms(1) by (cases prices) auto
  have num: "is_num p0" "\<forall>v\<in>set ps. is_num v"
    using assms(2) prices by auto
  have nn: "\<forall>v\<in>set ps. v \<noteq> Null"
    using num(2) by (auto simp: is_num_def)
  let ?m = "ema_multiplier period"
  have unf: "calculateEMA (p0 # ps) period = ema_loop ?m ps [p0] p0"
    using num(1) by (simp add: calculateEMA_numeric_unfold)
  have mult: "\<forall>p. p \<noteq> - 1 \<longrightarrow> ema_multiplier (Fin p) = Fin (2 / (p + 1))"
    by (auto simp: ema_multiplier_def)
  have first: "calculateEMA prices period ! 0 = prices ! 0"
    unfolding prices unf by (simp add: ema_loop_prefix)
  have rec: "calculateEMA prices period ! Suc i =
               Num (js_add (js_mul (to_number (prices ! Suc i)) ?m)
                           (js_mul (to_number (calculateEMA prices period ! i)) (js_sub (Fin 1) ?m)))"
    if "Suc i < length prices" for i
  proof -
    have "i < length ps" using that prices by simp
    then have "ema_loop ?m ps [p0] p0 ! (length [p0] + i) =
               ema_next ?m (ps ! i) (ema_loop ?m ps [p0] p0 ! (length [p0] + i - 1))"
      using nn by (intro ema_loop_rec) auto
    then show ?thesis unfolding prices unf by (simp add: ema_next_def)
  qed
  have defined: "is_num (calculateEMA prices period ! i)" if "i < length prices" for i
    unfolding prices unf using that prices num by (intro ema_loop_is_num) auto
  have example:
    "calculateEMA [Num (Fin 10), Num (Fin 12), Num (Fin 11), Num (Fin 13), Num (Fin 15)] (Fin 3)
       = [Num (Fin 10), Num (Fin 11), Num (Fin 11), Num (Fin 12), Num (Fin 13.5)]"
    by (simp add: calculateEMA_def ema_multiplier_def ema_next_def js_sub_def)
  show ?thesis
    using mult calculateEMA_length first rec defined example by blast
qed

theorem calculateEMA_recurrence_witness:
  "[Num (Fin 4), Num (Fin 10)] \<noteq> [] \<and> is_num (Num (Fin 4)) \<and> is_num (Num (Fin 10))
   \<and> calculateEMA [Num (Fin 4), Num (Fin 10)] (Fin 2) ! 0 = Num (Fin 4)
   \<and> calculateEMA [Num (Fin 4), Num (Fin 10)] (Fin 2) ! Suc 0 = Num (Fin 8)"
proof -
  have h1: "[Num (Fin 4), Num (Fin 10)] \<noteq> []" by simp
  have h2: "\<forall>v\<in>set [Num (Fin 4), Num (Fin 10)]. is_num v" by (simp add: is_num_def)
  have m: "ema_multiplier (Fin 2) = Fin (2 / 3)" by (simp add: ema_multiplier_def)
  from calculateEMA_recurrence [OF h1 h2, of "Fin 2"]
  have a: "calculateEMA [Num (Fin 4), Num (Fin 10)] (Fin 2) ! 0 = Num (Fin 4)"
    and b: "calculateEMA [Num (Fin 4), Num (Fin 10)] (Fin 2) ! Suc 0 =
              Num (js_add (js_mul (Fin 10) (Fin (2 / 3))) (js_mul (Fin 4) (js_sub (Fin 1) (Fin (2 / 3)))))"
    by (simp_all add: m)
  show ?thesis using h1 h2 a b by (simp add: js_sub_def is_num_def)
qed

section \<open>Properties of \<open>calculateMACD\<close>\<close>

lemma map_index_nth: "i < length xs \<Longrightarrow> map_index f xs ! i = f (xs ! i) i"
  by (simp add: map_index_def)

lemma map_index_length: "length (map_index f xs) = length xs"
  by (simp add: map_index_def)

lemma calculateMACD_fields:
  "macd_dif (calculateMACD prices fast slow signal) =
     dif_values (calculateEMA prices fast) (calculateEMA prices slow)"
  "macd_dea (calculateMACD prices fast slow signal) =
     calculateEMA (filter (\<lambda>v. v \<noteq> Null) (macd_dif (calculateMACD prices fast slow signal))) signal"
  "macd_macd (calculateMACD prices fast slow signal) =
     macd_values (macd_dif (calculateMACD prices fast slow signal))
                 (macd_dea (calculateMACD prices fast slow signal))"
  by (simp_all add: calculateMACD_def Let_def)

lemma dif_values_nth:
  assumes "index < length ema12" "length ema26 = length ema12"
  shows "dif_values ema12 ema26 ! index =
         (if ema12 ! index \<noteq> Null \<and> ema26 ! index \<noteq> Null
          then Num (js_sub (to_number (ema12 ! index)) (to_number (ema26 ! index)))
          else Null)"
  using assms by (simp add: dif_values_def map_index_nth js_nth_def)

lemma macd_values_nth:
  assumes "index < length dif"
  shows "macd_values dif dea ! index =
         (if dif ! index \<noteq> Null \<and> js_nth dea (int index) \<noteq> Null
          then Num (js_mul (Fin 2) (js_sub (to_number (dif ! index)) (to_number (js_nth dea (int index)))))
          else Null)"
  using assms by (simp add: macd_values_def map_index_nth)

lemma calculateMACD_dif_length:
  "length (macd_dif (calculateMACD prices fast slow signal)) = length prices"
  by (simp add: calculateMACD_fields(1) dif_values_def map_index_length calculateEMA_length)

lemma calculateMACD_two:
  "calculateMACD [Num (Fin a), Num (Fin b)] (Fin 2) (Fin 3) signal =
     \<lparr>macd_dif = [Num (Fin 0), Num (Fin (b * (2 / 3) + a * (1 / 3) - (b * (1 / 2) + a * (1 / 2))))],
      macd_dea = [Num (Fin 0),
                  ema_next (ema_multiplier signal)
                    (Num (Fin (b * (2 / 3) + a * (1 / 3) - (b * (1 / 2) + a * (1 / 2))))) (Num (Fin 0))],
      macd_macd = [Num (Fin 0),
                   Num (js_mul (Fin 2) (js_sub (Fin (b * (2 / 3) + a * (1 / 3) - (b * (1 / 2) + a * (1 / 2))))
                      (to_number (ema_next (ema_multiplier signal)
                    (Num (Fin (b * (2 / 3) + a * (1 / 3) - (b * (1 / 2) + a * (1 / 2))))) (Num (Fin 0))))))]\<rparr>"
proof -
  have e12: "calculateEMA [Num (Fin a), Num (Fin b)] (Fin 2) = [Num (Fin a), Num (Fin (b * (2 / 3) + a * (1 / 3)))]"
    by (simp add: calculateEMA_def ema_multiplier_def js_sub_def ema_next_def)
  have e26: "calculateEMA [Num (Fin a), Num (Fin b)] (Fin 3) = [Num (Fin a), Num (Fin (b * (1 / 2) + a * (1 / 2)))]"
    by (simp add: calculateEMA_def ema_multiplier_def js_sub_def ema_next_def)
  have upt2: "[0..<2] = [0, Suc 0]" by (simp add: upt_rec eval_nat_numeral)
  have dif: "dif_values [Num (Fin a), Num (Fin (b * (2 / 3) + a * (1 / 3)))]
                        [Num (Fin a), Num (Fin (b * (1 / 2) + a * (1 / 2)))]
             = [Num (Fin 0), Num (Fin (b * (2 / 3) + a * (1 / 3) - (b * (1 / 2) + a * (1 / 2))))]"
    by (simp add: dif_values_def map_index_def upt2 js_nth_def js_sub_def)
  have dea: "calculateEMA (filter (\<lambda>v. v \<noteq> Null)
               [Num (Fin 0), Num (Fin (b * (2 / 3) + a * (1 / 3) - (b * (1 / 2) + a * (1 / 2))))]) signal
             = [Num (Fin 0), ema_next (ema_multiplier signal)
                    (Num (Fin (b * (2 / 3) + a * (1 / 3) - (b * (1 / 2) + a * (1 / 2))))) (Num (Fin 0))]"
    by (simp add: calculateEMA_def)
  have nn: "ema_next m p e \<noteq> Null" for m p e
    by (simp add: ema_next_def)
  show ?thesis
    unfolding calculateMACD_def Let_def e12 e26 dif dea
    by (simp add: macd_values_def map_index_def upt2 js_nth_def js_sub_def nn)
qed

text \<open>
  Claim C2, as stated, fails. With fast 2, slow 3 and signal period 3 on the two prices
  1 and 2, \<open>dif[0]\<close> is 0 and \<open>dea[0]\<close>, \<open>dea[1]\<close> are the numbers 0 and 1/12: the signal
  line is an EMA, which has no warm-up, so neither is undefined.
\<close>

theorem calculateMACD_short_input_counterexample:
  "length [Num (Fin 1), Num (Fin 2)] = 2
   \<and> js_nth (macd_dif (calculateMACD [Num (Fin 1), Num (Fin 2)] (Fin 2) (Fin 3) (Fin 3))) 0 = Num (Fin 0)
   \<and> js_nth (macd_dea (calculateMACD [Num (Fin 1), Num (Fin 2)] (Fin 2) (Fin 3) (Fin 3))) 0 = Num (Fin 0)
   \<and> js_nth (macd_dea (calculateMACD [Num (Fin 1), Num (Fin 2)] (Fin 2) (Fin 3) (Fin 3))) 1 = Num (Fin (1 / 12))
   \<and> js_nth (macd_dea (calculateMACD [Num (Fin 1), Num (Fin 2)] (Fin 2) (Fin 3) (Fin 3))) 0 \<noteq> Undefined
   \<and> js_nth (macd_dea (calculateMACD [Num (Fin 1), Num (Fin 2)] (Fin 2) (Fin 3) (Fin 3))) 1 \<noteq> Undefined"
  by (simp add: calculateMACD_two js_nth_def ema_next_def ema_multiplier_def js_sub_def)


text \<open>
  Claim C2, amended. With fast 2 and slow 3 on any two finite prices and any signal period,
  \<open>dif[0]\<close> is defined (it is 0), and so are \<open>dea[0]\<close> (equal to \<open>dif[0]\<close>) and \<open>dea[1]\<close>,
  since the EMA seeds at its first input. At every index where either source EMA is
  \<open>null\<close>, \<open>dif\<close> and the MACD histogram are \<open>null\<close>.
\<close>

theorem calculateMACD_warmup:
  assumes "index < length prices"
  shows "(\<forall>a b signal.
            macd_dif (calculateMACD [Num (Fin a), Num (Fin b)] (Fin 2) (Fin 3) signal) ! 0 = Num (Fin 0)
          \<and> length (macd_dea (calculateMACD [Num (Fin a), Num (Fin b)] (Fin 2) (Fin 3) signal)) = 2
          \<and> macd_dea (calculateMACD [Num (Fin a), Num (Fin b)] (Fin 2) (Fin 3) signal) ! 0 = Num (Fin 0)
          \<and> is_num (macd_dea (calculateMACD [Num (Fin a), Num (Fin b)] (Fin 2) (Fin 3) signal) ! 1))
       \<and> (calculateEMA prices fast ! index = Null \<or> calculateEMA prices slow ! index = Null \<longrightarrow>
            macd_dif (calculateMACD prices fast slow signalPeriod) ! index = Null
          \<and> macd_macd (calculateMACD prices fast slow signalPeriod) ! index = Null)"
proof -
  have short: "macd_dif (calculateMACD [Num (Fin a), Num (Fin b)] (Fin 2) (Fin 3) signal) ! 0 = Num (Fin 0)
          \<and> length (macd_dea (calculateMACD [Num (Fin a), Num (Fin b)] (Fin 2) (Fin 3) signal)) = 2
          \<and> macd_dea (calculateMACD [Num (Fin a), Num (Fin b)] (Fin 2) (Fin 3) signal) ! 0 = Num (Fin 0)
          \<and> is_num (macd_dea (calculateMACD [Num (Fin a), Num (Fin b)] (Fin 2) (Fin 3) signal) ! 1)"
    for a b signal
    unfolding calculateMACD_two by (simp add: is_num_def ema_next_def)
  have undef: "macd_dif (calculateMACD prices fast slow signalPeriod) ! index = Null
          \<and> macd_macd (calculateMACD prices fast slow signalPeriod) ! index = Null"
    if "calculateEMA prices fast ! index = Null \<or> calculateEMA prices slow ! index = Null"
  proof -
    have d: "macd_dif (calculateMACD prices fast slow signalPeriod) ! index = Null"
      using that assms by (auto simp: calculateMACD_fields(1) dif_values_nth calculateEMA_length)
    then show ?thesis using assms
      by (simp add: calculateMACD_fields(3) macd_values_nth calculateMACD_dif_length)
  qed
  show ?thesis using short undef by blast
qed

theorem calculateMACD_warmup_witness:
  "(0::nat) < length [Null, Num (Fin 1), Num (Fin 2)]
   \<and> calculateEMA [Null, Num (Fin 1), Num (Fin 2)] (Fin 2) ! 0 = Null
   \<and> macd_dif (calculateMACD [Null, Num (Fin 1), Num (Fin 2)] (Fin 2) (Fin 3) (Fin 3)) ! 0 = Null
   \<and> macd_macd (calculateMACD [Null, Num (Fin 1), Num (Fin 2)] (Fin 2) (Fin 3) (Fin 3)) ! 0 = Null"
proof -
  have h: "(0::nat) < length [Null, Num (Fin 1), Num (Fin 2)]" by simp
  have e: "calculateEMA [Null, Num (Fin 1), Num (Fin 2)] (Fin 2) ! 0 = Null"
    by (simp add: calculateEMA_def)
  from calculateMACD_warmup [OF h, of "Fin 2" "Fin 3" "Fin 3"] e
  have "macd_dif (calculateMACD [Null, Num (Fin 1), Num (Fin 2)] (Fin 2) (Fin 3) (Fin 3)) ! 0 = Null
      \<and> macd_macd (calculateMACD [Null, Num (Fin 1), Num (Fin 2)] (Fin 2) (Fin 3) (Fin 3)) ! 0 = Null"
    by blast
  then show ?thesis using h e by simp
qed

text \<open>
  Where \<open>dif\<close> has a leading \<open>null\<close>, \<open>dea\<close> is shorter than \<open>dif\<close>: the read of \<open>dea\<close>
  past its end is \<open>undefined\<close>, which passes the \<open>!== null\<close> test, and the histogram value
  there is \<open>NaN\<close>.
\<close>

lemma calculateMACD_dea_past_end:
  "js_nth (macd_dea (calculateMACD [Null, Num (Fin 1), Num (Fin 2)] (Fin 2) (Fin 3) (Fin 3))) 2 = Undefined
   \<and> macd_dif (calculateMACD [Null, Num (Fin 1), Num (Fin 2)] (Fin 2) (Fin 3) (Fin 3)) ! 2 = Num (Fin (1 / 6))
   \<and> macd_macd (calculateMACD [Null, Num (Fin 1), Num (Fin 2)] (Fin 2) (Fin 3) (Fin 3)) ! 2 = Num NaN"
proof -
  have e12: "calculateEMA [Null, Num (Fin 1), Num (Fin 2)] (Fin 2) = [Null, Num (Fin 1), Num (Fin (5 / 3))]"
    by (simp add: calculateEMA_def ema_multiplier_def js_sub_def ema_next_def)
  have e26: "calculateEMA [Null, Num (Fin 1), Num (Fin 2)] (Fin 3) = [Null, Num (Fin 1), Num (Fin (3 / 2))]"
    by (simp add: calculateEMA_def ema_multiplier_def js_sub_def ema_next_def)
  have upt3: "[0..<3] = [0, Suc 0, Suc (Suc 0)]" by (simp add: upt_rec eval_nat_numeral)
  have dif: "dif_values [Null, Num (Fin 1), Num (Fin (5 / 3))] [Null, Num (Fin 1), Num (Fin (3 / 2))]
             = [Null, Num (Fin 0), Num (Fin (1 / 6))]"
    by (simp add: dif_values_def map_index_def upt3 js_nth_def js_sub_def)
  have dea: "calculateEMA (filter (\<lambda>v. v \<noteq> Null) [Null, Num (Fin 0), Num (Fin (1 / 6))]) (Fin 3)
             = [Num (Fin 0), Num (Fin (1 / 12))]"
    by (simp add: calculateEMA_def ema_multiplier_def js_sub_def ema_next_def)
  have m: "macd_values [Null, Num (Fin 0), Num (Fin (1 / 6))] [Num (Fin 0), Num (Fin (1 / 12))]
             = [Null, Num (Fin (- (1 / 6))), Num NaN]"
    by (simp add: macd_values_def map_index_def upt3 js_nth_def js_sub_def)
  have "calculateMACD [Null, Num (Fin 1), Num (Fin 2)] (Fin 2) (Fin 3) (Fin 3) =
          \<lparr>macd_dif = [Null, Num (Fin 0), Num (Fin (1 / 6))],
           macd_dea = [Num (Fin 0), Num (Fin (1 / 12))],
           macd_macd = [Null, Num (Fin (- (1 / 6))), Num NaN]\<rparr>"
    unfolding calculateMACD_def Let_def e12 e26 dif dea m ..
  then show ?thesis by (simp add: js_nth_def)
qed

section \<open>Properties of \<open>calculateKDJ\<close>\<close>

lemma kdj_run_0: "kdj_run highs lows closes period 0 = \<lparr>kdj_k = [], kdj_d = [], kdj_j = [], kdj_rsv = []\<rparr>"
  by (simp add: kdj_run_def)

lemma kdj_run_Suc:
  "kdj_run highs lows closes period (Suc n) =
     kdj_step highs lows closes period (kdj_run highs lows closes period n) n"
  by (simp add: kdj_run_def)

lemma kdj_step_lengths:
  "length (kdj_k (kdj_step highs lows closes period st i)) = Suc (length (kdj_k st))"
  "length (kdj_d (kdj_step highs lows closes period st i)) = Suc (length (kdj_d st))"
  "length (kdj_j (kdj_step highs lows closes period st i)) = Suc (length (kdj_j st))"
  "length (kdj_rsv (kdj_step highs lows closes period st i)) = Suc (length (kdj_rsv st))"
  by (simp_all add: kdj_step_def Let_def)

lemma kdj_run_lengths:
  "length (kdj_k (kdj_run highs lows closes period n)) = n"
  "length (kdj_d (kdj_run highs lows closes period n)) = n"
  "length (kdj_j (kdj_run highs lows closes period n)) = n"
  "length (kdj_rsv (kdj_run highs lows closes period n)) = n"
  by (induction n) (simp_all add: kdj_run_0 kdj_run_Suc kdj_step_lengths)

lemma kdj_step_prefix:
  "i < length (kdj_k st) \<Longrightarrow> kdj_k (kdj_step highs lows closes period st n) ! i = kdj_k st ! i"
  "i < length (kdj_d st) \<Longrightarrow> kdj_d (kdj_step highs lows closes period st n) ! i = kdj_d st ! i"
  "i < length (kdj_j st) \<Longrightarrow> kdj_j (kdj_step highs lows closes period st n) ! i = kdj_j st ! i"
  "i < length (kdj_rsv st) \<Longrightarrow> kdj_rsv (kdj_step highs lows closes period st n) ! i = kdj_rsv st ! i"
  by (simp_all add: kdj_step_def Let_def nth_append)

lemma kdj_run_stable:
  assumes "i < m" "m \<le> n"
  shows "kdj_k (kdj_run highs lows closes period n) ! i = kdj_k (kdj_run highs lows closes period m) ! i"
    and "kdj_d (kdj_run highs lows closes period n) ! i = kdj_d (kdj_run highs lows closes period m) ! i"
    and "kdj_j (kdj_run highs lows closes period n) ! i = kdj_j (kdj_run highs lows closes period m) ! i"
    and "kdj_rsv (kdj_run highs lows closes period n) ! i = kdj_rsv (kdj_run highs lows closes period m) ! i"
  using assms(2,1)
  by (induction n rule: dec_induct) (simp_all add: kdj_run_Suc kdj_step_prefix kdj_run_lengths)

lemma js_nth_prev_stable:
  assumes "i \<le> n"
  shows "js_nth (kdj_k (kdj_run highs lows closes period i)) (int i - 1) =
         js_nth (kdj_k (kdj_run highs lows closes period n)) (int i - 1)"
    and "js_nth (kdj_d (kdj_run highs lows closes period i)) (int i - 1) =
         js_nth (kdj_d (kdj_run highs lows closes period n)) (int i - 1)"
proof -
  show "js_nth (kdj_k (kdj_run highs lows closes period i)) (int i - 1) =
         js_nth (kdj_k (kdj_run highs lows closes period n)) (int i - 1)"
  proof (cases i)
    case 0
    then show ?thesis by (simp add: js_nth_def)
  next
    case (Suc i')
    have "kdj_k (kdj_run highs lows closes period n) ! i' = kdj_k (kdj_run highs lows closes period i) ! i'"
      using Suc assms by (intro kdj_run_stable) auto
    then show ?thesis using Suc assms by (simp add: js_nth_def kdj_run_lengths)
  qed
  show "js_nth (kdj_d (kdj_run highs lows closes period i)) (int i - 1) =
         js_nth (kdj_d (kdj_run highs lows closes period n)) (int i - 1)"
  proof (cases i)
    case 0
    then show ?thesis by (simp add: js_nth_def)
  next
    case (Suc i')
    have "kdj_d (kdj_run highs lows closes period n) ! i' = kdj_d (kdj_run highs lows closes period i) ! i'"
      using Suc assms by (intro kdj_run_stable) auto
    then show ?thesis using Suc assms by (simp add: js_nth_def kdj_run_lengths)
  qed
qed

text \<open>What the loop stores at a valid index.\<close>

lemma calculateKDJ_at:
  fixes highs lows closes :: "jsnum list" and period i :: nat
  assumes "i < length closes" "\<not> int i < int period - 1"
  defines "R \<equiv> calculateKDJ highs lows closes period"
  shows "kdj_rsv R ! i = Num (currentRSV highs lows closes period i)"
    and "kdj_k R ! i = Num (js_div (js_add (js_mul (Fin 2) (or_default (js_nth (kdj_k R) (int i - 1)) (Fin 50)))
                                    (currentRSV highs lows closes period i)) (Fin 3))"
    and "kdj_d R ! i = Num (js_div (js_add (js_mul (Fin 2) (or_default (js_nth (kdj_d R) (int i - 1)) (Fin 50)))
                                    (to_number (kdj_k R ! i))) (Fin 3))"
    and "kdj_j R ! i = Num (js_sub (js_mul (Fin 3) (to_number (kdj_k R ! i)))
                                    (js_mul (Fin 2) (to_number (kdj_d R ! i))))"
proof -
  let ?run = "kdj_run highs lows closes period"
  have R: "R = ?run (length closes)" by (simp add: R_def calculateKDJ_def)
  have le: "Suc i \<le> length closes" "i \<le> length closes" using assms(1) by auto
  have st: "kdj_k R ! i = kdj_k (?run (Suc i)) ! i" "kdj_d R ! i = kdj_d (?run (Suc i)) ! i"
           "kdj_j R ! i = kdj_j (?run (Suc i)) ! i" "kdj_rsv R ! i = kdj_rsv (?run (Suc i)) ! i"
    unfolding R using le(1) by (simp_all add: kdj_run_stable)
  have pk: "js_nth (kdj_k (?run i)) (int i - 1) = js_nth (kdj_k R) (int i - 1)"
    and pd: "js_nth (kdj_d (?run i)) (int i - 1) = js_nth (kdj_d R) (int i - 1)"
    unfolding R using le(2) js_nth_prev_stable by blast+
  have len: "length (kdj_k (?run i)) = i" "length (kdj_d (?run i)) = i"
            "length (kdj_j (?run i)) = i" "length (kdj_rsv (?run i)) = i"
    by (simp_all add: kdj_run_lengths)
  show "kdj_rsv R ! i = Num (currentRSV highs lows closes period i)"
    unfolding st kdj_run_Suc using assms(2) len by (simp add: kdj_step_def Let_def nth_append)
  show k: "kdj_k R ! i = Num (js_div (js_add (js_mul (Fin 2) (or_default (js_nth (kdj_k R) (int i - 1)) (Fin 50)))
                                    (currentRSV highs lows closes period i)) (Fin 3))"
    unfolding st kdj_run_Suc using assms(2) len pk by (simp add: kdj_step_def Let_def nth_append)
  have k': "kdj_k (?run (Suc i)) ! i = Num (js_div (js_add (js_mul (Fin 2) (or_default (js_nth (kdj_k (?run i)) (int i - 1)) (Fin 50)))
                                    (currentRSV highs lows closes period i)) (Fin 3))"
    unfolding kdj_run_Suc using assms(2) len by (simp add: kdj_step_def Let_def nth_append)
  show d: "kdj_d R ! i = Num (js_div (js_add (js_mul (Fin 2) (or_default (js_nth (kdj_d R) (int i - 1)) (Fin 50)))
                                    (to_number (kdj_k R ! i))) (Fin 3))"
    unfolding st k' unfolding kdj_run_Suc using assms(2) len pd by (simp add: kdj_step_def Let_def nth_append)
  have d': "kdj_d (?run (Suc i)) ! i = Num (js_div (js_add (js_mul (Fin 2) (or_default (js_nth (kdj_d (?run i)) (int i - 1)) (Fin 50)))
                                    (to_number (kdj_k (?run (Suc i)) ! i))) (Fin 3))"
    unfolding k' unfolding kdj_run_Suc using assms(2) len by (simp add: kdj_step_def Let_def nth_append)
  show "kdj_j R ! i = Num (js_sub (js_mul (Fin 3) (to_number (kdj_k R ! i)))
                                    (js_mul (Fin 2) (to_number (kdj_d R ! i))))"
    unfolding st d' k' unfolding kdj_run_Suc using assms(2) len by (simp add: kdj_step_def Let_def nth_append)
qed

lemma calculateKDJ_warmup:
  fixes highs lows closes :: "jsnum list" and period i :: nat
  assumes "i < length closes" "int i < int period - 1"
  defines "R \<equiv> calculateKDJ highs lows closes period"
  shows "kdj_rsv R ! i = Null" "kdj_k R ! i = Null" "kdj_d R ! i = Null" "kdj_j R ! i = Null"
proof -
  let ?run = "kdj_run highs lows closes period"
  have R: "R = ?run (length closes)" by (simp add: R_def calculateKDJ_def)
  have le: "Suc i \<le> length closes" using assms(1) by auto
  have st: "kdj_k R ! i = kdj_k (?run (Suc i)) ! i" "kdj_d R ! i = kdj_d (?run (Suc i)) ! i"
           "kdj_j R ! i = kdj_j (?run (Suc i)) ! i" "kdj_rsv R ! i = kdj_rsv (?run (Suc i)) ! i"
    unfolding R using le(1) by (simp_all add: kdj_run_stable)
  have len: "length (kdj_k (?run i)) = i" "length (kdj_d (?run i)) = i"
            "length (kdj_j (?run i)) = i" "length (kdj_rsv (?run i)) = i"
    by (simp_all add: kdj_run_lengths)
  show "kdj_rsv R ! i = Null" "kdj_k R ! i = Null" "kdj_d R ! i = Null" "kdj_j R ! i = Null"
    unfolding st kdj_run_Suc using assms(2) len by (simp_all add: kdj_step_def nth_append)
qed

lemma foldl_js_max_Fin: "foldl js_max (Fin a) (map Fin xs) = Fin (foldl max a xs)"
  by (induction xs arbitrary: a) auto

lemma foldl_js_min_Fin: "foldl js_min (Fin a) (map Fin xs) = Fin (foldl min a xs)"
  by (induction xs arbitrary: a) auto

lemma math_max_Fin: "xs \<noteq> [] \<Longrightarrow> math_max (map Fin xs) = Fin (Max (set xs))"
proof (cases xs)
  case Nil
  then show "xs \<noteq> [] \<Longrightarrow> ?thesis" by simp
next
  case (Cons a as)
  have "math_max (map Fin xs) = Fin (foldl max a as)"
    by (simp add: math_max_def Cons foldl_js_max_Fin)
  also have "foldl max a as = Max (set (a # as))"
    using Max.set_eq_fold[of a as] by (simp add: foldl_conv_fold max.commute)
  finally show ?thesis using Cons by simp
qed

lemma math_min_Fin: "xs \<noteq> [] \<Longrightarrow> math_min (map Fin xs) = Fin (Min (set xs))"
proof (cases xs)
  case Nil
  then show "xs \<noteq> [] \<Longrightarrow> ?thesis" by simp
next
  case (Cons a as)
  have "math_min (map Fin xs) = Fin (foldl min a as)"
    by (simp add: math_min_def Cons foldl_js_min_Fin)
  also have "foldl min a as = Min (set (a # as))"
    using Min.set_eq_fold[of a as] by (simp add: foldl_conv_fold min.commute)
  finally show ?thesis using Cons by simp
qed

lemma js_slice_window:
  assumes "period \<le> Suc i"
  shows "js_slice (map Fin xs) (int i - int period + 1) (int i + 1) = map Fin (window xs period i)"
proof -
  have a: "slice_index (length xs) (int i - int period + 1) = min (Suc i - period) (length xs)"
    using assms by (auto simp: slice_index_def min_def)
  have b: "slice_index (length xs) (int i + 1) = min (Suc i) (length xs)"
    by (auto simp: slice_index_def min_def)
  show ?thesis
    by (simp add: js_slice_def a b window_def drop_map take_map min_def)
qed

lemma window_nonempty: "i < length xs \<Longrightarrow> 1 \<le> period \<Longrightarrow> window xs period i \<noteq> []"
  by (auto simp: window_def)

lemma highestHigh_window:
  assumes "period \<le> Suc i" "1 \<le> period" "i < length hs"
  shows "highestHigh (map Fin hs) period i = Fin (Max (set (window hs period i)))"
  using assms by (simp add: highestHigh_def js_slice_window math_max_Fin window_nonempty)

lemma lowestLow_window:
  assumes "period \<le> Suc i" "1 \<le> period" "i < length ls"
  shows "lowestLow (map Fin ls) period i = Fin (Min (set (window ls period i)))"
  using assms by (simp add: lowestLow_def js_slice_window math_min_Fin window_nonempty)

text \<open>
  Claim C1, as stated, fails on a flat window. With period 3 and highs, lows and closes all
  equal to 10, the window at index 2 has its highest high equal to its lowest low, and
  \<open>calculateKDJ\<close> divides zero by zero: RSV, K, D and J at index 2 are \<open>NaN\<close>, not 0.
\<close>

theorem calculateKDJ_flat_window_counterexample:
  "highestHigh [Fin 10, Fin 10, Fin 10] 3 2 = lowestLow [Fin 10, Fin 10, Fin 10] 3 2
   \<and> kdj_rsv (calculateKDJ [Fin 10, Fin 10, Fin 10] [Fin 10, Fin 10, Fin 10] [Fin 10, Fin 10, Fin 10] 3) ! 2 = Num NaN
   \<and> kdj_rsv (calculateKDJ [Fin 10, Fin 10, Fin 10] [Fin 10, Fin 10, Fin 10] [Fin 10, Fin 10, Fin 10] 3) ! 2 \<noteq> Num (Fin 0)
   \<and> kdj_k (calculateKDJ [Fin 10, Fin 10, Fin 10] [Fin 10, Fin 10, Fin 10] [Fin 10, Fin 10, Fin 10] 3) ! 2 = Num NaN
   \<and> kdj_d (calculateKDJ [Fin 10, Fin 10, Fin 10] [Fin 10, Fin 10, Fin 10] [Fin 10, Fin 10, Fin 10] 3) ! 2 = Num NaN
   \<and> kdj_j (calculateKDJ [Fin 10, Fin 10, Fin 10] [Fin 10, Fin 10, Fin 10] [Fin 10, Fin 10, Fin 10] 3) ! 2 = Num NaN"
  by (simp add: calculateKDJ_def kdj_run_def kdj_step_def currentRSV_def highestHigh_def lowestLow_def
        math_max_def math_min_def js_slice_def slice_index_def js_sub_def or_default_def js_nth_def
        upt_rec eval_nat_numeral Let_def)

lemma not_finite_arith:
  "\<not> is_finite b \<Longrightarrow> \<not> is_finite (js_add a b)"
  "\<not> is_finite a \<Longrightarrow> \<not> is_finite (js_div a (Fin 3))"
  "\<not> is_finite a \<Longrightarrow> \<not> is_finite (js_mul (Fin 3) a)"
  "\<not> is_finite a \<Longrightarrow> \<not> is_finite (js_sub a b)"
  by (cases a; cases b; simp add: js_sub_def)+

lemma flat_rsv:
  "js_mul (js_div (js_sub (Fin c) (Fin l)) (js_sub (Fin l) (Fin l))) (Fin 100) =
     (if c = l then NaN else if l < c then PInf else NInf)"
  by (simp add: js_sub_def)

text \<open>
  Claim C1, amended. For every input and every index \<open>i \<ge> period - 1\<close>, \<open>RSV[i]\<close> is
  \<open>(close[i] - lowestLow) / (highestHigh - lowestLow) * 100\<close> as JavaScript evaluates it,
  with no guard on the division; for sequences of finite numbers of one length and a
  period of at least 1, \<open>highestHigh\<close> is the maximum of the highs and \<open>lowestLow\<close> the
  minimum of the lows over the last \<open>period\<close> points. Whenever that window is flat
  (maximum high equal to minimum low), \<open>RSV[i]\<close> is not 0: it is \<open>NaN\<close> when the close
  equals the low and an infinity otherwise, and the K, D and J entries at \<open>i\<close> are
  non-finite as well.
\<close>

theorem calculateKDJ_rsv_unguarded:
  fixes hs ls cs :: "real list" and period i :: nat
  assumes "length hs = length cs" "length ls = length cs" "i < length cs" "1 \<le> period" "period \<le> Suc i"
  shows "(\<forall>highs lows closes. i < length closes \<longrightarrow>
            kdj_rsv (calculateKDJ highs lows closes period) ! i =
              Num (js_mul (js_div (js_sub (closes ! i) (lowestLow lows period i))
                                  (js_sub (highestHigh highs period i) (lowestLow lows period i)))
                          (Fin 100)))
       \<and> highestHigh (map Fin hs) period i = Fin (Max (set (window hs period i)))
       \<and> lowestLow (map Fin ls) period i = Fin (Min (set (window ls period i)))
       \<and> kdj_rsv (calculateKDJ (map Fin hs) (map Fin ls) (map Fin cs) period) ! i =
            Num (js_mul (js_div (js_sub (Fin (cs ! i)) (Fin (Min (set (window ls period i)))))
                                (js_sub (Fin (Max (set (window hs period i))))
                                        (Fin (Min (set (window ls period i))))))
                        (Fin 100))
       \<and> (Max (set (window hs period i)) = Min (set (window ls period i)) \<longrightarrow>
            kdj_rsv (calculateKDJ (map Fin hs) (map Fin ls) (map Fin cs) period) ! i \<noteq> Num (Fin 0)
          \<and> (cs ! i = Min (set (window ls period i)) \<longrightarrow>
               kdj_rsv (calculateKDJ (map Fin hs) (map Fin ls) (map Fin cs) period) ! i = Num NaN)
          \<and> (cs ! i \<noteq> Min (set (window ls period i)) \<longrightarrow>
               kdj_rsv (calculateKDJ (map Fin hs) (map Fin ls) (map Fin cs) period) ! i = Num PInf
             \<or> kdj_rsv (calculateKDJ (map Fin hs) (map Fin ls) (map Fin cs) period) ! i = Num NInf)
          \<and> \<not> null_or_finite (kdj_rsv (calculateKDJ (map Fin hs) (map Fin ls) (map Fin cs) period) ! i)
          \<and> \<not> null_or_finite (kdj_k (calculateKDJ (map Fin hs) (map Fin ls) (map Fin cs) period) ! i)
          \<and> \<not> null_or_finite (kdj_d (calculateKDJ (map Fin hs) (map Fin ls) (map Fin cs) period) ! i)
          \<and> \<not> null_or_finite (kdj_j (calculateKDJ (map Fin hs) (map Fin ls) (map Fin cs) period) ! i))"
proof -
  let ?R = "calculateKDJ (map Fin hs) (map Fin ls) (map Fin cs) period"
  let ?hi = "Max (set (window hs period i))"
  let ?lo = "Min (set (window ls period i))"
  let ?rsv = "currentRSV (map Fin hs) (map Fin ls) (map Fin cs) period i"
  have valid: "\<not> int i < int period - 1" using assms(5) by simp
  have ic: "i < length (map Fin cs)" using assms(3) by simp
  have part0: "kdj_rsv (calculateKDJ highs lows closes period) ! i =
              Num (js_mul (js_div (js_sub (closes ! i) (lowestLow lows period i))
                                  (js_sub (highestHigh highs period i) (lowestLow lows period i)))
                          (Fin 100))"
    if "i < length closes" for highs lows closes
    using calculateKDJ_at(1)[OF that valid, of highs lows] by (simp add: currentRSV_def)
  have hi: "highestHigh (map Fin hs) period i = Fin ?hi"
    using assms by (simp add: highestHigh_window)
  have lo: "lowestLow (map Fin ls) period i = Fin ?lo"
    using assms by (simp add: lowestLow_window)
  have cur: "?rsv = js_mul (js_div (js_sub (Fin (cs ! i)) (Fin ?lo)) (js_sub (Fin ?hi) (Fin ?lo))) (Fin 100)"
    using assms(3) by (simp add: currentRSV_def hi lo)
  have at: "kdj_rsv ?R ! i = Num ?rsv"
    using ic valid by (rule calculateKDJ_at(1))
  have k: "kdj_k ?R ! i = Num (js_div (js_add (js_mul (Fin 2) (or_default (js_nth (kdj_k ?R) (int i - 1)) (Fin 50)))
                                    ?rsv) (Fin 3))"
    using ic valid by (rule calculateKDJ_at(2))
  have d: "kdj_d ?R ! i = Num (js_div (js_add (js_mul (Fin 2) (or_default (js_nth (kdj_d ?R) (int i - 1)) (Fin 50)))
                                    (to_number (kdj_k ?R ! i))) (Fin 3))"
    using ic valid by (rule calculateKDJ_at(3))
  have j: "kdj_j ?R ! i = Num (js_sub (js_mul (Fin 3) (to_number (kdj_k ?R ! i)))
                                    (js_mul (Fin 2) (to_number (kdj_d ?R ! i))))"
    using ic valid by (rule calculateKDJ_at(4))
  have part3: "kdj_rsv ?R ! i =
            Num (js_mul (js_div (js_sub (Fin (cs ! i)) (Fin ?lo)) (js_sub (Fin ?hi) (Fin ?lo))) (Fin 100))"
    using at cur by simp
  have flat: "kdj_rsv ?R ! i \<noteq> Num (Fin 0)
          \<and> (cs ! i = ?lo \<longrightarrow> kdj_rsv ?R ! i = Num NaN)
          \<and> (cs ! i \<noteq> ?lo \<longrightarrow> kdj_rsv ?R ! i = Num PInf \<or> kdj_rsv ?R ! i = Num NInf)
          \<and> \<not> null_or_finite (kdj_rsv ?R ! i)
          \<and> \<not> null_or_finite (kdj_k ?R ! i)
          \<and> \<not> null_or_finite (kdj_d ?R ! i)
          \<and> \<not> null_or_finite (kdj_j ?R ! i)"
    if eq: "?hi = ?lo"
  proof -
    have r: "?rsv = (if cs ! i = ?lo then NaN else if ?lo < cs ! i then PInf else NInf)"
      unfolding cur eq by (rule flat_rsv)
    have nr: "\<not> is_finite ?rsv" unfolding r by simp
    have nk: "\<not> is_finite (to_number (kdj_k ?R ! i))"
      unfolding k using nr by (simp add: not_finite_arith)
    have nd: "\<not> is_finite (to_number (kdj_d ?R ! i))"
      unfolding d using nk by (simp add: not_finite_arith)
    have nj: "\<not> is_finite (to_number (kdj_j ?R ! i))"
      unfolding j using nk by (simp add: not_finite_arith)
    have a: "kdj_rsv ?R ! i \<noteq> Num (Fin 0)" unfolding at r by simp
    have b: "cs ! i = ?lo \<longrightarrow> kdj_rsv ?R ! i = Num NaN" unfolding at r by simp
    have c: "cs ! i \<noteq> ?lo \<longrightarrow> kdj_rsv ?R ! i = Num PInf \<or> kdj_rsv ?R ! i = Num NInf"
      unfolding at r by simp
    have e: "\<not> null_or_finite (kdj_rsv ?R ! i)" unfolding at using nr by simp
    have f: "\<not> null_or_finite (kdj_k ?R ! i)" using nk unfolding k by simp
    have g: "\<not> null_or_finite (kdj_d ?R ! i)" using nd unfolding d by simp
    have h: "\<not> null_or_finite (kdj_j ?R ! i)" using nj unfolding j by simp
    show ?thesis using a b c e f g h by blast
  qed
  show ?thesis using part0 hi lo part3 flat by blast
qed

theorem calculateKDJ_rsv_unguarded_witness:
  "length [10, 10, 10 :: real] = length [10, 10, 10 :: real] \<and> (2::nat) < length [10, 10, 10 :: real]
   \<and> (1::nat) \<le> 3 \<and> (3::nat) \<le> Suc 2
   \<and> Max (set (window [10, 10, 10] 3 2)) = Min (set (window [10, 10, 10] 3 2))
   \<and> [10, 10, 10 :: real] ! 2 = Min (set (window [10, 10, 10] 3 2))
   \<and> kdj_rsv (calculateKDJ (map Fin [10, 10, 10]) (map Fin [10, 10, 10]) (map Fin [10, 10, 10]) 3) ! 2
       = Num NaN
   \<and> \<not> null_or_finite
        (kdj_k (calculateKDJ (map Fin [10, 10, 10]) (map Fin [10, 10, 10]) (map Fin [10, 10, 10]) 3) ! 2)"
proof -
  have w: "window [10, 10, 10] 3 2 = [10, 10, 10]"
    by (simp add: window_def eval_nat_numeral)
  have h: "length [10, 10, 10 :: real] = length [10, 10, 10 :: real]"
      "(2::nat) < length [10, 10, 10 :: real]" "(1::nat) \<le> 3" "(3::nat) \<le> Suc 2"
    by simp_all
  have flat: "Max (set (window [10, 10, 10] 3 2)) = Min (set (window [10, 10, 10] 3 2))"
    by (simp add: w)
  have c: "[10, 10, 10 :: real] ! 2 = Min (set (window [10, 10, 10] 3 2))"
    by (simp add: w)
  from calculateKDJ_rsv_unguarded [OF h(1) h(1) h(2) h(3) h(4)] flat c
  have "kdj_rsv (calculateKDJ (map Fin [10, 10, 10]) (map Fin [10, 10, 10]) (map Fin [10, 10, 10]) 3) ! 2
       = Num NaN"
    and "\<not> null_or_finite
        (kdj_k (calculateKDJ (map Fin [10, 10, 10]) (map Fin [10, 10, 10]) (map Fin [10, 10, 10]) 3) ! 2)"
    by blast+
  then show ?thesis using h flat c by blast
qed

text \<open>
  Claim C10. \<open>calculateKDJ\<close> reads the previous K and D through \<open>|| 50\<close>. At every index
  \<open>i + 1 \<ge> period - 1\<close> whose predecessor holds a finite K (or D) value \<open>x\<close>, the next
  value is \<open>(2 * x + RSV) / 3\<close> (or \<open>(2 * x + K) / 3\<close>) when \<open>x\<close> is not zero, and
  \<open>(2 * 50 + RSV) / 3\<close> when \<open>x\<close> is exactly zero: the seed 50 replaces the zero. Two runs
  show the recurrence failing after a zero: period 1, highs 2, lows 1, closes 0 (K is 0
  at index 0) and closes -3 (D is 0 at index 0).
\<close>

theorem calculateKDJ_falsy_seed:
  fixes highs lows closes :: "jsnum list" and period i :: nat
  assumes "Suc i < length closes" "period \<le> Suc (Suc i)"
  shows "(\<forall>x r. kdj_k (calculateKDJ highs lows closes period) ! i = Num (Fin x)
              \<and> kdj_rsv (calculateKDJ highs lows closes period) ! Suc i = Num (Fin r) \<longrightarrow>
            kdj_k (calculateKDJ highs lows closes period) ! Suc i =
              Num (Fin ((2 * (if x = 0 then 50 else x) + r) / 3)))
       \<and> (\<forall>x c. kdj_d (calculateKDJ highs lows closes period) ! i = Num (Fin x)
              \<and> kdj_k (calculateKDJ highs lows closes period) ! Suc i = Num (Fin c) \<longrightarrow>
            kdj_d (calculateKDJ highs lows closes period) ! Suc i =
              Num (Fin ((2 * (if x = 0 then 50 else x) + c) / 3)))
       \<and> kdj_k (calculateKDJ [Fin 2, Fin 2] [Fin 1, Fin 1] [Fin 0, Fin 0] 1) = [Num (Fin 0), Num (Fin 0)]
       \<and> kdj_rsv (calculateKDJ [Fin 2, Fin 2] [Fin 1, Fin 1] [Fin 0, Fin 0] 1) = [Num (Fin (- 100)), Num (Fin (- 100))]
       \<and> kdj_k (calculateKDJ [Fin 2, Fin 2] [Fin 1, Fin 1] [Fin 0, Fin 0] 1) ! 1 \<noteq> Num (Fin ((2 * 0 + (- 100)) / 3))
       \<and> kdj_d (calculateKDJ [Fin 2, Fin 2] [Fin 1, Fin 1] [Fin (- 3), Fin (- 3)] 1) ! 0 = Num (Fin 0)
       \<and> kdj_k (calculateKDJ [Fin 2, Fin 2] [Fin 1, Fin 1] [Fin (- 3), Fin (- 3)] 1) ! 1 = Num (Fin (- 200))
       \<and> kdj_d (calculateKDJ [Fin 2, Fin 2] [Fin 1, Fin 1] [Fin (- 3), Fin (- 3)] 1) ! 1 = Num (Fin ((2 * 50 + (- 200)) / 3))
       \<and> kdj_d (calculateKDJ [Fin 2, Fin 2] [Fin 1, Fin 1] [Fin (- 3), Fin (- 3)] 1) ! 1 \<noteq> Num (Fin ((2 * 0 + (- 200)) / 3))"
proof -
  let ?R = "calculateKDJ highs lows closes period"
  have valid: "\<not> int (Suc i) < int period - 1" using assms(2) by simp
  have prevk: "js_nth (kdj_k ?R) (int (Suc i) - 1) = kdj_k ?R ! i"
    and prevd: "js_nth (kdj_d ?R) (int (Suc i) - 1) = kdj_d ?R ! i"
    using assms(1) by (simp_all add: js_nth_def calculateKDJ_def kdj_run_lengths)
  have rsv: "kdj_rsv ?R ! Suc i = Num (currentRSV highs lows closes period (Suc i))"
    using assms(1) valid by (rule calculateKDJ_at(1))
  have k: "kdj_k ?R ! Suc i = Num (js_div (js_add (js_mul (Fin 2) (or_default (kdj_k ?R ! i) (Fin 50)))
                                    (currentRSV highs lows closes period (Suc i))) (Fin 3))"
    using calculateKDJ_at(2)[OF assms(1) valid, of highs lows] unfolding prevk .
  have d: "kdj_d ?R ! Suc i = Num (js_div (js_add (js_mul (Fin 2) (or_default (kdj_d ?R ! i) (Fin 50)))
                                    (to_number (kdj_k ?R ! Suc i))) (Fin 3))"
    using calculateKDJ_at(3)[OF assms(1) valid, of highs lows] unfolding prevd .
  have partk: "kdj_k ?R ! Suc i = Num (Fin ((2 * (if x = 0 then 50 else x) + r) / 3))"
    if "kdj_k ?R ! i = Num (Fin x) \<and> kdj_rsv ?R ! Suc i = Num (Fin r)" for x r
  proof -
    have "currentRSV highs lows closes period (Suc i) = Fin r" using that rsv by simp
    then show ?thesis using that k by (simp add: or_default_def)
  qed
  have partd: "kdj_d ?R ! Suc i = Num (Fin ((2 * (if x = 0 then 50 else x) + c) / 3))"
    if "kdj_d ?R ! i = Num (Fin x) \<and> kdj_k ?R ! Suc i = Num (Fin c)" for x c
    using that d by (simp add: or_default_def)
  have ev: "calculateKDJ [Fin 2, Fin 2] [Fin 1, Fin 1] [Fin 0, Fin 0] 1 =
        \<lparr>kdj_k = [Num (Fin 0), Num (Fin 0)], kdj_d = [Num (Fin (100 / 3)), Num (Fin (200 / 9))],
         kdj_j = [Num (Fin (- (200 / 3))), Num (Fin (- (400 / 9)))],
         kdj_rsv = [Num (Fin (- 100)), Num (Fin (- 100))]\<rparr>"
    by (simp add: calculateKDJ_def kdj_run_def kdj_step_def currentRSV_def highestHigh_def lowestLow_def
        math_max_def math_min_def js_slice_def slice_index_def js_sub_def or_default_def js_nth_def
        upt_rec eval_nat_numeral Let_def)
  have ev2: "calculateKDJ [Fin 2, Fin 2] [Fin 1, Fin 1] [Fin (- 3), Fin (- 3)] 1 =
        \<lparr>kdj_k = [Num (Fin (- 100)), Num (Fin (- 200))], kdj_d = [Num (Fin 0), Num (Fin (- (100 / 3)))],
         kdj_j = [Num (Fin (- 300)), Num (Fin (- (1600 / 3)))],
         kdj_rsv = [Num (Fin (- 400)), Num (Fin (- 400))]\<rparr>"
    by (simp add: calculateKDJ_def kdj_run_def kdj_step_def currentRSV_def highestHigh_def lowestLow_def
        math_max_def math_min_def js_slice_def slice_index_def js_sub_def or_default_def js_nth_def
        upt_rec eval_nat_numeral Let_def)
  have inst: "kdj_k (calculateKDJ [Fin 2, Fin 2] [Fin 1, Fin 1] [Fin 0, Fin 0] 1) = [Num (Fin 0), Num (Fin 0)]
       \<and> kdj_rsv (calculateKDJ [Fin 2, Fin 2] [Fin 1, Fin 1] [Fin 0, Fin 0] 1) = [Num (Fin (- 100)), Num (Fin (- 100))]
       \<and> kdj_k (calculateKDJ [Fin 2, Fin 2] [Fin 1, Fin 1] [Fin 0, Fin 0] 1) ! 1 \<noteq> Num (Fin ((2 * 0 + (- 100)) / 3))"
    unfolding ev by simp
  have inst2: "kdj_d (calculateKDJ [Fin 2, Fin 2] [Fin 1, Fin 1] [Fin (- 3), Fin (- 3)] 1) ! 0 = Num (Fin 0)
       \<and> kdj_k (calculateKDJ [Fin 2, Fin 2] [Fin 1, Fin 1] [Fin (- 3), Fin (- 3)] 1) ! 1 = Num (Fin (- 200))
       \<and> kdj_d (calculateKDJ [Fin 2, Fin 2] [Fin 1, Fin 1] [Fin (- 3), Fin (- 3)] 1) ! 1 = Num (Fin ((2 * 50 + (- 200)) / 3))
       \<and> kdj_d (calculateKDJ [Fin 2, Fin 2] [Fin 1, Fin 1] [Fin (- 3), Fin (- 3)] 1) ! 1 \<noteq> Num (Fin ((2 * 0 + (- 200)) / 3))"
    unfolding ev2 by simp
  show ?thesis using partk partd inst inst2 by blast
qed

theorem calculateKDJ_falsy_seed_witness:
  "Suc 0 < length [Fin 0, Fin 0] \<and> (1::nat) \<le> Suc (Suc 0)
   \<and> kdj_k (calculateKDJ [Fin 2, Fin 2] [Fin 1, Fin 1] [Fin 0, Fin 0] 1) ! 0 = Num (Fin 0)
   \<and> kdj_rsv (calculateKDJ [Fin 2, Fin 2] [Fin 1, Fin 1] [Fin 0, Fin 0] 1) ! Suc 0 = Num (Fin (- 100))
   \<and> kdj_k (calculateKDJ [Fin 2, Fin 2] [Fin 1, Fin 1] [Fin 0, Fin 0] 1) ! Suc 0 = Num (Fin 0)
   \<and> kdj_d (calculateKDJ [Fin 2, Fin 2] [Fin 1, Fin 1] [Fin (- 3), Fin (- 3)] 1) ! 0 = Num (Fin 0)
   \<and> kdj_k (calculateKDJ [Fin 2, Fin 2] [Fin 1, Fin 1] [Fin (- 3), Fin (- 3)] 1) ! Suc 0 = Num (Fin (- 200))
   \<and> kdj_d (calculateKDJ [Fin 2, Fin 2] [Fin 1, Fin 1] [Fin (- 3), Fin (- 3)] 1) ! Suc 0 = Num (Fin (- (100 / 3)))"
proof -
  have h1: "Suc 0 < length [Fin 0, Fin 0]" and h1': "Suc 0 < length [Fin (- 3), Fin (- 3)]"
    and h2: "(1::nat) \<le> Suc (Suc 0)"
    by simp_all
  note A = calculateKDJ_falsy_seed [OF h1 h2, of "[Fin 2, Fin 2]" "[Fin 1, Fin 1]"]
  note B = calculateKDJ_falsy_seed [OF h1' h2, of "[Fin 2, Fin 2]" "[Fin 1, Fin 1]"]
  have k0: "kdj_k (calculateKDJ [Fin 2, Fin 2] [Fin 1, Fin 1] [Fin 0, Fin 0] 1) ! 0 = Num (Fin 0)"
    and r1: "kdj_rsv (calculateKDJ [Fin 2, Fin 2] [Fin 1, Fin 1] [Fin 0, Fin 0] 1) ! Suc 0 = Num (Fin (- 100))"
    using A by simp_all
  have k1: "kdj_k (calculateKDJ [Fin 2, Fin 2] [Fin 1, Fin 1] [Fin 0, Fin 0] 1) ! Suc 0 =
              Num (Fin ((2 * (if (0::real) = 0 then 50 else 0) + (- 100)) / 3))"
    using A k0 r1 by blast
  have d0: "kdj_d (calculateKDJ [Fin 2, Fin 2] [Fin 1, Fin 1] [Fin (- 3), Fin (- 3)] 1) ! 0 = Num (Fin 0)"
    and c1: "kdj_k (calculateKDJ [Fin 2, Fin 2] [Fin 1, Fin 1] [Fin (- 3), Fin (- 3)] 1) ! Suc 0 = Num (Fin (- 200))"
    using B by simp_all
  have d1: "kdj_d (calculateKDJ [Fin 2, Fin 2] [Fin 1, Fin 1] [Fin (- 3), Fin (- 3)] 1) ! Suc 0 =
              Num (Fin ((2 * (if (0::real) = 0 then 50 else 0) + (- 200)) / 3))"
    using B d0 c1 by blast
  show ?thesis using h1 h2 k0 r1 k1 d0 c1 d1 by simp
qed

section \<open>Properties of the streaming buffers\<close>


lemma limit_points_zero: "limit_points 0 xs = xs"
  by (simp add: limit_points_def js_slice_from_def slice_index_def)







lemma updateGrid_other:
  "gc_grid2 (updateGrid1Data gc obj md now) = gc_grid2 gc"
  "gc_grid1 (updateGrid2Data gc obj md now) = gc_grid1 gc"
  "gc_maxDataPoints (updateGrid1Data gc obj md now) = gc_maxDataPoints gc"
  "gc_maxDataPoints (updateGrid2Data gc obj md now) = gc_maxDataPoints gc"
  "gc_isUpdating (updateGrid1Data gc obj md now) = gc_isUpdating gc"
  "gc_isUpdating (updateGrid2Data gc obj md now) = gc_isUpdating gc"
  "gc_isInitialized (updateGrid1Data gc obj md now) = gc_isInitialized gc"
  "gc_isInitialized (updateGrid2Data gc obj md now) = gc_isInitialized gc"
  by (simp_all add: updateGrid1Data_def updateGrid2Data_def limitDataBuffer_def Let_def)






lemma push_entry_Threw: "push_entry a c buffer e = Threw b \<Longrightarrow> b = buffer"
  by (auto simp: push_entry_def split: option.splits json.splits if_splits)






















lemma foldl_dropped:
  assumes "\<forall>l\<in>set ls. l g = g"
  shows "foldl (\<lambda>g listener. listener g) g ls = g"
  using assms by (induction ls) simp_all

lemma gc_updateChartsData_guard:
  "gc_isUpdating gc \<Longrightarrow> gc_updateChartsData gc data now listeners = (False, gc)"
  by (simp add: gc_updateChartsData_def)

lemma gc_updateChartsData_no_listeners_inflight:
  fixes gc data now
  defines "g0 \<equiv> gc\<lparr>gc_isUpdating := True\<rparr>"
  defines "g1 \<equiv> (if json_truthy (get_prop data ''ppie'') \<and> gc_chart1 g0 \<noteq> None \<and> gc_grid1Visible g0
                      then updateGrid1Data g0 (get_prop data ''ppie'') (get_prop data ''metadata'') now
                      else g0)"
  defines "g2 \<equiv> (if json_truthy (get_prop data ''vvie'') \<and> gc_chart2 g1 \<noteq> None \<and> gc_grid2Visible g1
                      then updateGrid2Data g1 (get_prop data ''vvie'') (get_prop data ''metadata'') now
                      else g1)"
  defines "g3 \<equiv> g2\<lparr>gc_updateCount := gc_updateCount g2 + 1\<rparr>"
  assumes "gc_isInitialized gc" "\<not> gc_isUpdating gc" "validateDataFormat data"
  shows "gc_isUpdating g3"
    and "gc_updateChartsData gc data now listeners =
           (True, (foldl (\<lambda>g listener. listener g) g3 listeners)\<lparr>gc_isUpdating := False\<rparr>)"
proof -
  have "gc_isUpdating g0" by (simp add: g0_def)
  then have "gc_isUpdating g1" by (simp add: g1_def updateGrid_other)
  then have "gc_isUpdating g2" by (simp add: g2_def updateGrid_other)
  then show "gc_isUpdating g3" by (simp add: g3_def)
  show "gc_updateChartsData gc data now listeners =
           (True, (foldl (\<lambda>g listener. listener g) g3 listeners)\<lparr>gc_isUpdating := False\<rparr>)"
    using assms(5-7) unfolding gc_updateChartsData_def g3_def g2_def g1_def g0_def Let_def by simp
qed

text \<open>
  Claim C9. \<open>GridController.updateChartsData\<close> runs at most one update cycle at a time.
  A request that finds \<open>isUpdating\<close> set returns \<open>false\<close> and leaves the whole state as it
  was: no buffer changes and nothing is stored for later. Requests made from inside a
  cycle (by the listeners of \<open>onDataUpdate\<close>, which run before the flag is cleared) are
  all dropped: the cycle ends as if they had never been made. A call that finds the flag
  clear leaves it clear.
\<close>

theorem updateChartsData_reentrancy_drop:
  "(gc_isUpdating gc \<longrightarrow> gc_updateChartsData gc data now listeners = (False, gc))
   \<and> gc_updateChartsData gc data now
         (map (\<lambda>request g. snd (gc_updateChartsData g (fst request) (snd request) [])) requests)
       = gc_updateChartsData gc data now []
   \<and> (\<not> gc_isUpdating gc \<longrightarrow> \<not> gc_isUpdating (snd (gc_updateChartsData gc data now listeners)))"
proof -
  have drop: "gc_isUpdating gc \<longrightarrow> gc_updateChartsData gc data now listeners = (False, gc)"
    by (simp add: gc_updateChartsData_guard)
  have flag: "\<not> gc_isUpdating gc \<longrightarrow> \<not> gc_isUpdating (snd (gc_updateChartsData gc data now listeners))"
    by (simp add: gc_updateChartsData_def Let_def)
  let ?ls = "map (\<lambda>request g. snd (gc_updateChartsData g (fst request) (snd request) [])) requests"
  have same: "gc_updateChartsData gc data now ?ls = gc_updateChartsData gc data now []"
  proof (cases "gc_isInitialized gc \<and> \<not> gc_isUpdating gc \<and> validateDataFormat data")
    case False
    then show ?thesis by (auto simp: gc_updateChartsData_def Let_def)
  next
    case True
    define g0 where "g0 = gc\<lparr>gc_isUpdating := True\<rparr>"
    define g1 where "g1 = (if json_truthy (get_prop data ''ppie'') \<and> gc_chart1 g0 \<noteq> None \<and> gc_grid1Visible g0
                      then updateGrid1Data g0 (get_prop data ''ppie'') (get_prop data ''metadata'') now
                      else g0)"
    define g2 where "g2 = (if json_truthy (get_prop data ''vvie'') \<and> gc_chart2 g1 \<noteq> None \<and> gc_grid2Visible g1
                      then updateGrid2Data g1 (get_prop data ''vvie'') (get_prop data ''metadata'') now
                      else g1)"
    define g3 where "g3 = g2\<lparr>gc_updateCount := gc_updateCount g2 + 1\<rparr>"
    have inflight: "gc_isUpdating g3"
      and res: "gc_updateChartsData gc data now ls =
           (True, (foldl (\<lambda>g listener. listener g) g3 ls)\<lparr>gc_isUpdating := False\<rparr>)" for ls
      using True gc_updateChartsData_no_listeners_inflight[of gc data now]
      unfolding g3_def g2_def g1_def g0_def by blast+
    have "\<forall>l\<in>set ?ls. l g3 = g3"
      using inflight by (auto simp: gc_updateChartsData_guard)
    then have "foldl (\<lambda>g listener. listener g) g3 ?ls = g3"
      by (rule foldl_dropped)
    then show ?thesis by (simp add: res)
  qed
  show ?thesis using drop same flag by blast
qed

theorem updateChartsData_reentrancy_drop_witness:
  "gc_isUpdating (grid_controller_ready\<lparr>gc_isUpdating := True\<rparr>)
   \<and> gc_updateChartsData (grid_controller_ready\<lparr>gc_isUpdating := True\<rparr>)
         (JObject [(''ppie'', JObject [(''P'', JNumber (Fin 1))])]) 0 []
       = (False, grid_controller_ready\<lparr>gc_isUpdating := True\<rparr>)
   \<and> \<not> gc_isUpdating grid_controller_ready
   \<and> \<not> gc_isUpdating (snd (gc_updateChartsData grid_controller_ready
         (JObject [(''ppie'', JObject [(''P'', JNumber (Fin 1))])]) 0 []))"
proof -
  have h1: "gc_isUpdating (grid_controller_ready\<lparr>gc_isUpdating := True\<rparr>)" by simp
  have h2: "\<not> gc_isUpdating grid_controller_ready" by (simp add: grid_controller_ready_def)
  from updateChartsData_reentrancy_drop
         [of "grid_controller_ready\<lparr>gc_isUpdating := True\<rparr>"
             "JObject [(''ppie'', JObject [(''P'', JNumber (Fin 1))])]" 0 "[]" "[]"] h1
  have a: "gc_updateChartsData (grid_controller_ready\<lparr>gc_isUpdating := True\<rparr>)
         (JObject [(''ppie'', JObject [(''P'', JNumber (Fin 1))])]) 0 []
       = (False, grid_controller_ready\<lparr>gc_isUpdating := True\<rparr>)"
    by blast
  from updateChartsData_reentrancy_drop
         [of grid_controller_ready "JObject [(''ppie'', JObject [(''P'', JNumber (Fin 1))])]" 0 "[]" "[]"] h2
  have b: "\<not> gc_isUpdating (snd (gc_updateChartsData grid_controller_ready
         (JObject [(''ppie'', JObject [(''P'', JNumber (Fin 1))])]) 0 []))"
    by blast
  show ?thesis using h1 h2 a b by blast
qed

section \<open>Properties of the connection manager\<close>

lemma fail_step:
  assumes "\<not> isConnected s" "reconnectAttempts s < maxReconnectAttempts s"
  shows "on_connect_error (reconnect_timer_fired s) =
           s\<lparr>isConnecting := False, reconnectAttempts := reconnectAttempts s + 1,
             connection_status := Some StReconnecting,
             reconnect_timers := reconnect_timers s @
               [backoff_delay (reconnectDelay s) (maxReconnectDelay s) (reconnectAttempts s + 1)]\<rparr>"
  using assms
  by (simp add: on_connect_error_def reconnect_timer_fired_def connect_def scheduleReconnect_def
        updateConnectionStatus_def backoff_delay_def Let_def)

lemma fail_step_exhausted:
  assumes "\<not> isConnected s" "maxReconnectAttempts s \<le> reconnectAttempts s"
  shows "on_connect_error (reconnect_timer_fired s) =
           s\<lparr>isConnecting := False, connection_status := Some StFailed\<rparr>"
  using assms
  by (simp add: on_connect_error_def reconnect_timer_fired_def connect_def scheduleReconnect_def
        updateConnectionStatus_def)

lemma first_failure:
  "on_connect_error (connect websocket_manager_new) =
     on_connect_error (reconnect_timer_fired (connect websocket_manager_new))"
  by (simp add: reconnect_timer_fired_def connect_def websocket_manager_new_def
        updateConnectionStatus_def)

lemma after_failures_Suc:
  "after_failures (Suc k) = on_connect_error (reconnect_timer_fired (after_failures k))"
  by (cases k) (simp_all add: first_failure)

lemma after_failures_closed:
  "k \<le> 10 \<Longrightarrow> after_failures k =
     websocket_manager_new\<lparr>isConnecting := (k = 0), reconnectAttempts := k,
       connection_status := Some (if k = 0 then StConnecting else StReconnecting),
       reconnect_timers := map (backoff_delay 1000 30000) [1..<Suc k]\<rparr>"
proof (induction k)
  case 0
  then show ?case
    by (simp add: connect_def websocket_manager_new_def updateConnectionStatus_def)
next
  case (Suc k)
  let ?s = "websocket_manager_new\<lparr>isConnecting := (k = 0), reconnectAttempts := k,
       connection_status := Some (if k = 0 then StConnecting else StReconnecting),
       reconnect_timers := map (backoff_delay 1000 30000) [1..<Suc k]\<rparr>"
  have s: "after_failures k = ?s" using Suc by simp
  have a: "\<not> isConnected ?s" by (simp add: websocket_manager_new_def)
  have b: "reconnectAttempts ?s < maxReconnectAttempts ?s"
    using Suc.prems by (simp add: websocket_manager_new_def)
  show ?case
    unfolding after_failures_Suc s fail_step[OF a b]
    by (simp add: websocket_manager_new_def)
qed

lemma after_failures_11:
  "after_failures 11 = (after_failures 10)\<lparr>isConnecting := False, connection_status := Some StFailed\<rparr>"
proof -
  have e: "(11::nat) = Suc 10" by simp
  have a: "\<not> isConnected (after_failures 10)"
    and b: "maxReconnectAttempts (after_failures 10) \<le> reconnectAttempts (after_failures 10)"
    by (simp_all add: after_failures_closed websocket_manager_new_def)
  show ?thesis unfolding e after_failures_Suc fail_step_exhausted[OF a b] ..
qed

lemma backoff_defaults:
  "map (backoff_delay 1000 30000) [1, 2, 3, 4, 5, 6, 7] = [1000, 2000, 4000, 8000, 16000, 30000, 30000]"
  by (simp add: backoff_delay_def)

text \<open>
  Claim C4. The delay that \<open>scheduleReconnect\<close> sets before the \<open>k\<close>-th automatic attempt
  (\<open>k \<ge> 1\<close>, within \<open>maxReconnectAttempts\<close>) is \<open>min(reconnectDelay * 2^(k-1), maxReconnectDelay)\<close>.
  With the constructor's values 1000 and 30000 the delays are 1000, 2000, 4000, 8000,
  16000, 30000, 30000 and so on; with 10 attempts allowed, each of the first 10 consecutive
  failures leaves the status \<open>reconnecting\<close>, and the 11th leaves it \<open>failed\<close> and sets no
  further timer.
\<close>

theorem reconnect_backoff_schedule:
  "(\<forall>s k. 1 \<le> k \<and> reconnectAttempts s = k - 1 \<and> k \<le> maxReconnectAttempts s \<longrightarrow>
       reconnect_timers (scheduleReconnect s) =
         reconnect_timers s @ [min (reconnectDelay s * 2 ^ (k - 1)) (maxReconnectDelay s)]
     \<and> reconnectAttempts (scheduleReconnect s) = k
     \<and> connection_status (scheduleReconnect s) = Some StReconnecting)
   \<and> map (\<lambda>k. min (1000 * 2 ^ (k - 1)) (30000::nat)) [1, 2, 3, 4, 5, 6, 7]
        = [1000, 2000, 4000, 8000, 16000, 30000, 30000]
   \<and> (\<forall>k. k \<le> 10 \<longrightarrow>
         reconnect_timers (after_failures k) = map (\<lambda>i. min (1000 * 2 ^ (i - 1)) 30000) [1..<Suc k]
       \<and> reconnectAttempts (after_failures k) = k)
   \<and> (\<forall>k. 1 \<le> k \<and> k \<le> 10 \<longrightarrow> connection_status (after_failures k) = Some StReconnecting)
   \<and> connection_status (after_failures 11) = Some StFailed
   \<and> connection_status (after_failures 11) \<noteq> Some StReconnecting
   \<and> reconnect_timers (after_failures 11) = reconnect_timers (after_failures 10)
   \<and> reconnectAttempts (after_failures 11) = 10"
proof -
  have p1: "reconnect_timers (scheduleReconnect s) =
         reconnect_timers s @ [min (reconnectDelay s * 2 ^ (k - 1)) (maxReconnectDelay s)]
     \<and> reconnectAttempts (scheduleReconnect s) = k
     \<and> connection_status (scheduleReconnect s) = Some StReconnecting"
    if "1 \<le> k \<and> reconnectAttempts s = k - 1 \<and> k \<le> maxReconnectAttempts s" for s k
  proof -
    have lt: "\<not> maxReconnectAttempts s \<le> reconnectAttempts s" and k: "reconnectAttempts s + 1 = k"
      using that by auto
    show ?thesis using lt k
      by (auto simp: scheduleReconnect_def updateConnectionStatus_def Let_def)
  qed
  have p2: "map (\<lambda>k. min (1000 * 2 ^ (k - 1)) (30000::nat)) [1, 2, 3, 4, 5, 6, 7]
        = [1000, 2000, 4000, 8000, 16000, 30000, 30000]"
    by simp
  have p3: "reconnect_timers (after_failures k) = map (\<lambda>i. min (1000 * 2 ^ (i - 1)) 30000) [1..<Suc k]
       \<and> reconnectAttempts (after_failures k) = k" if "k \<le> 10" for k
    using that by (simp add: after_failures_closed backoff_delay_def)
  have p4: "connection_status (after_failures k) = Some StReconnecting" if "1 \<le> k \<and> k \<le> 10" for k
    using that by (simp add: after_failures_closed)
  have p5: "connection_status (after_failures 11) = Some StFailed
   \<and> connection_status (after_failures 11) \<noteq> Some StReconnecting
   \<and> reconnect_timers (after_failures 11) = reconnect_timers (after_failures 10)
   \<and> reconnectAttempts (after_failures 11) = 10"
    by (simp add: after_failures_11 after_failures_closed)
  show ?thesis using p1 p2 p3 p4 p5 by blast
qed

theorem reconnect_backoff_schedule_witness:
  "(1::nat) \<le> 3 \<and> reconnectAttempts (after_failures 2) = 3 - 1 \<and> 3 \<le> maxReconnectAttempts (after_failures 2)
   \<and> reconnect_timers (scheduleReconnect (after_failures 2)) = [1000, 2000, 4000]
   \<and> (7::nat) \<le> 10
   \<and> reconnect_timers (after_failures 7) = [1000, 2000, 4000, 8000, 16000, 30000, 30000]
   \<and> connection_status (after_failures 7) = Some StReconnecting"
proof -
  note T = reconnect_backoff_schedule
  have s2: "after_failures 2 = websocket_manager_new\<lparr>isConnecting := False, reconnectAttempts := 2,
       connection_status := Some StReconnecting, reconnect_timers := [1000, 2000]\<rparr>"
    by (simp add: after_failures_closed backoff_delay_def upt_rec)
  have h: "(1::nat) \<le> 3 \<and> reconnectAttempts (after_failures 2) = 3 - 1 \<and> 3 \<le> maxReconnectAttempts (after_failures 2)"
    by (simp add: s2 websocket_manager_new_def)
  from T h have "reconnect_timers (scheduleReconnect (after_failures 2)) =
         reconnect_timers (after_failures 2) @
           [min (reconnectDelay (after_failures 2) * 2 ^ (3 - 1)) (maxReconnectDelay (after_failures 2))]"
    by blast
  then have a: "reconnect_timers (scheduleReconnect (after_failures 2)) = [1000, 2000, 4000]"
    by (simp add: s2 websocket_manager_new_def)
  have h7: "(7::nat) \<le> 10" by simp
  from T h7 have "reconnect_timers (after_failures 7) = map (\<lambda>i. min (1000 * 2 ^ (i - 1)) 30000) [1..<Suc 7]"
    by blast
  then have b: "reconnect_timers (after_failures 7) = [1000, 2000, 4000, 8000, 16000, 30000, 30000]"
    by (simp add: upt_rec)
  have h7': "(1::nat) \<le> 7 \<and> (7::nat) \<le> 10" by simp
  from T h7' have c: "connection_status (after_failures 7) = Some StReconnecting"
    by blast
  show ?thesis using h a h7 b c by blast
qed

lemma after_failures_11_fields:
  "isConnected (after_failures 11) = False" "isConnecting (after_failures 11) = False"
  "reconnectAttempts (after_failures 11) = 10" "maxReconnectAttempts (after_failures 11) = 10"
  "connection_status (after_failures 11) = Some StFailed"
  by (simp_all add: after_failures_11 after_failures_closed websocket_manager_new_def)

text \<open>
  Claim C5, as stated, fails. After 11 consecutive failures the status is \<open>failed\<close> with
  \<open>reconnectAttempts\<close> at 10; \<open>connect()\<close> leaves the counter at 10, and if that attempt
  fails too the status is \<open>failed\<close> again at once, with no retry scheduled.
\<close>

theorem connect_after_failed_counterexample:
  "connection_status (after_failures 11) = Some StFailed
   \<and> reconnectAttempts (connect (after_failures 11)) = 10
   \<and> reconnectAttempts (connect (after_failures 11)) \<noteq> 0
   \<and> connection_status (on_connect_error (connect (after_failures 11))) = Some StFailed
   \<and> reconnect_timers (on_connect_error (connect (after_failures 11))) = reconnect_timers (after_failures 11)"
  by (simp add: connect_def on_connect_error_def scheduleReconnect_def updateConnectionStatus_def
        after_failures_11_fields)

text \<open>
  Claim C5, amended. From the failed state (not connected, not connecting, attempts
  exhausted) an explicit \<open>connect()\<close> starts a connection attempt and leaves
  \<open>reconnectAttempts\<close> as it is; the counter returns to 0 only when the transport reports
  success (the \<open>connect\<close> event). If the attempt fails, the status is \<open>failed\<close> again, with
  no timer set and the counter unchanged. In the failed state \<open>disconnect()\<close> changes
  nothing and \<open>scheduleReconnect\<close> sets no timer.
\<close>

theorem connect_from_failed:
  assumes "\<not> isConnected s" and "\<not> isConnecting s"
    and "maxReconnectAttempts s \<le> reconnectAttempts s"
  shows "connect s = s\<lparr>isConnecting := True, connection_status := Some StConnecting\<rparr>
       \<and> reconnectAttempts (connect s) = reconnectAttempts s
       \<and> reconnectAttempts (on_connect (connect s)) = 0
       \<and> connection_status (on_connect (connect s)) = Some StConnected
       \<and> connection_status (on_connect_error (connect s)) = Some StFailed
       \<and> reconnect_timers (on_connect_error (connect s)) = reconnect_timers s
       \<and> reconnectAttempts (on_connect_error (connect s)) = reconnectAttempts s
       \<and> disconnect s = s
       \<and> scheduleReconnect s = s\<lparr>connection_status := Some StFailed\<rparr>
       \<and> reconnect_timers (reconnect_timer_fired (scheduleReconnect s)) = reconnect_timers s
       \<and> reconnectAttempts (reconnect_timer_fired (scheduleReconnect s)) = reconnectAttempts s"
  using assms
  by (simp add: connect_def on_connect_def on_connect_error_def disconnect_def scheduleReconnect_def
        reconnect_timer_fired_def updateConnectionStatus_def)

theorem connect_from_failed_witness:
  "\<not> isConnected (after_failures 11) \<and> \<not> isConnecting (after_failures 11)
   \<and> maxReconnectAttempts (after_failures 11) \<le> reconnectAttempts (after_failures 11)
   \<and> reconnectAttempts (connect (after_failures 11)) = 10
   \<and> reconnectAttempts (on_connect (connect (after_failures 11))) = 0
   \<and> connection_status (on_connect_error (connect (after_failures 11))) = Some StFailed"
proof -
  have h1: "\<not> isConnected (after_failures 11)" and h2: "\<not> isConnecting (after_failures 11)"
    and h3: "maxReconnectAttempts (after_failures 11) \<le> reconnectAttempts (after_failures 11)"
    by (simp_all add: after_failures_11_fields)
  from connect_from_failed [OF h1 h2 h3]
  have "reconnectAttempts (connect (after_failures 11)) = reconnectAttempts (after_failures 11)"
    and "reconnectAttempts (on_connect (connect (after_failures 11))) = 0"
    and "connection_status (on_connect_error (connect (after_failures 11))) = Some StFailed"
    by blast+
  then show ?thesis using h1 h2 h3 by (simp add: after_failures_11_fields)
qed






lemma handleHistoryResponse_success:
  "response \<noteq> JNull \<Longrightarrow> response \<noteq> JUndefined \<Longrightarrow> get_prop response ''status'' = JString ''success'' \<Longrightarrow>
     handleHistoryResponse s response = s\<lparr>onData_events := onData_events s @ [get_prop response ''data'']\<rparr>"
  by (simp add: handleHistoryResponse_def)







section \<open>Properties of the pipeline coordinator\<close>

lemma app_paused_run:
  "isDataUpdatePaused app \<Longrightarrow> foldl app_handleRealtimeData app packets = app"
  by (induction packets) (simp_all add: app_handleRealtimeData_def)

lemma dual_paused_run:
  "dual_isDataUpdatePaused app \<Longrightarrow> foldl dual_handleRealtimeData app packets = app"
  by (induction packets) (simp_all add: dual_handleRealtimeData_def)

text \<open>
  Claim C8. While the pause flag is set, \<open>handleRealtimeData\<close> returns at once: after any
  number of packets the application is exactly as it was, so every series buffer and the
  persisted store are unchanged. The packets are dropped, not queued: clearing the flag
  gives back the state from before the pause, and replaying the same packets then ends in
  the state that processing them without any pause ends in. This holds of \<open>Application\<close>
  (with \<open>ChartsManager\<close>) and of \<open>DualGridApplication\<close> (with \<open>GridController\<close>).
\<close>

theorem paused_packets_dropped:
  "(isDataUpdatePaused app \<longrightarrow>
      foldl app_handleRealtimeData app packets = app
    \<and> app_charts (foldl app_handleRealtimeData app packets) = app_charts app
    \<and> app_database (foldl app_handleRealtimeData app packets) = app_database app)
   \<and> (\<not> isDataUpdatePaused app \<longrightarrow>
        (foldl app_handleRealtimeData (app\<lparr>isDataUpdatePaused := True\<rparr>) packets)
           \<lparr>isDataUpdatePaused := False\<rparr> = app
      \<and> foldl app_handleRealtimeData
           ((foldl app_handleRealtimeData (app\<lparr>isDataUpdatePaused := True\<rparr>) packets)
              \<lparr>isDataUpdatePaused := False\<rparr>) packets
         = foldl app_handleRealtimeData app packets)
   \<and> (dual_isDataUpdatePaused dual \<longrightarrow>
        foldl dual_handleRealtimeData dual timed = dual
      \<and> dual_gridController (foldl dual_handleRealtimeData dual timed) = dual_gridController dual
      \<and> dual_database (foldl dual_handleRealtimeData dual timed) = dual_database dual)
   \<and> (\<not> dual_isDataUpdatePaused dual \<longrightarrow>
        (foldl dual_handleRealtimeData (dual\<lparr>dual_isDataUpdatePaused := True\<rparr>) timed)
           \<lparr>dual_isDataUpdatePaused := False\<rparr> = dual
      \<and> foldl dual_handleRealtimeData
           ((foldl dual_handleRealtimeData (dual\<lparr>dual_isDataUpdatePaused := True\<rparr>) timed)
              \<lparr>dual_isDataUpdatePaused := False\<rparr>) timed
         = foldl dual_handleRealtimeData dual timed)"
proof -
  have a: "foldl app_handleRealtimeData app packets = app" if "isDataUpdatePaused app"
    using that by (rule app_paused_run)
  have b: "(foldl app_handleRealtimeData (app\<lparr>isDataUpdatePaused := True\<rparr>) packets)
           \<lparr>isDataUpdatePaused := False\<rparr> = app" if "\<not> isDataUpdatePaused app"
    using that by (simp add: app_paused_run)
  have c: "foldl dual_handleRealtimeData dual timed = dual" if "dual_isDataUpdatePaused dual"
    using that by (rule dual_paused_run)
  have d: "(foldl dual_handleRealtimeData (dual\<lparr>dual_isDataUpdatePaused := True\<rparr>) timed)
           \<lparr>dual_isDataUpdatePaused := False\<rparr> = dual" if "\<not> dual_isDataUpdatePaused dual"
    using that by (simp add: dual_paused_run)
  show ?thesis using a b c d by simp
qed

lemma one_packet_unpaused:
  "map_option (\<lambda>cm. cm_ppie cm ''p_data'')
     (app_charts (app_handleRealtimeData application_ready (one_point_packet 5 7)))
   = Some (Some [JArray [JNumber (Fin 5), JNumber (Fin 7)]])"
  by (simp add: app_handleRealtimeData_def application_ready_def one_point_packet_def
        charts_manager_ready_def cm_updateChartsData_def updatePPIEData_def updateVVIEData_def
        push_entry_def limit_points_def Let_def)

theorem paused_packets_dropped_witness:
  "isDataUpdatePaused (application_ready\<lparr>isDataUpdatePaused := True\<rparr>)
   \<and> foldl app_handleRealtimeData (application_ready\<lparr>isDataUpdatePaused := True\<rparr>)
        [one_point_packet 1 10, one_point_packet 2 20, one_point_packet 3 30,
         one_point_packet 4 40, one_point_packet 5 50]
      = application_ready\<lparr>isDataUpdatePaused := True\<rparr>
   \<and> \<not> isDataUpdatePaused application_ready
   \<and> (foldl app_handleRealtimeData (application_ready\<lparr>isDataUpdatePaused := True\<rparr>)
        [one_point_packet 5 7])\<lparr>isDataUpdatePaused := False\<rparr> = application_ready
   \<and> map_option (\<lambda>cm. cm_ppie cm ''p_data'')
        (app_charts (foldl app_handleRealtimeData
           ((foldl app_handleRealtimeData (application_ready\<lparr>isDataUpdatePaused := True\<rparr>)
               [one_point_packet 5 7])\<lparr>isDataUpdatePaused := False\<rparr>) [one_point_packet 5 7]))
      = Some (Some [JArray [JNumber (Fin 5), JNumber (Fin 7)]])
   \<and> dual_isDataUpdatePaused
        \<lparr>dual_isDataUpdatePaused = True, dual_totalDataReceived = 0, dual_totalErrors = 0,
         dual_debugMode = True, dual_gridController = Some grid_controller_ready,
         dual_database = None\<rparr>
   \<and> dual_gridController (foldl dual_handleRealtimeData
        \<lparr>dual_isDataUpdatePaused = True, dual_totalDataReceived = 0, dual_totalErrors = 0,
         dual_debugMode = True, dual_gridController = Some grid_controller_ready,
         dual_database = None\<rparr> [(one_point_packet 5 7, 0)])
      = Some grid_controller_ready"
proof -
  let ?dual = "\<lparr>dual_isDataUpdatePaused = True, dual_totalDataReceived = 0, dual_totalErrors = 0,
         dual_debugMode = True, dual_gridController = Some grid_controller_ready,
         dual_database = None\<rparr>"
  have h3: "dual_isDataUpdatePaused ?dual" by simp
  from paused_packets_dropped [of application_ready "[]" ?dual "[(one_point_packet 5 7, 0)]"] h3
  have e: "dual_gridController (foldl dual_handleRealtimeData ?dual [(one_point_packet 5 7, 0)])
      = dual_gridController ?dual"
    by blast
  let ?five = "[one_point_packet 1 10, one_point_packet 2 20, one_point_packet 3 30,
         one_point_packet 4 40, one_point_packet 5 50]"
  have h1: "isDataUpdatePaused (application_ready\<lparr>isDataUpdatePaused := True\<rparr>)" by simp
  have h2: "\<not> isDataUpdatePaused application_ready" by (simp add: application_ready_def)
  from paused_packets_dropped [of "application_ready\<lparr>isDataUpdatePaused := True\<rparr>" ?five] h1
  have a: "foldl app_handleRealtimeData (application_ready\<lparr>isDataUpdatePaused := True\<rparr>) ?five
      = application_ready\<lparr>isDataUpdatePaused := True\<rparr>"
    by blast
  from paused_packets_dropped [of application_ready "[one_point_packet 5 7]"] h2
  have b: "(foldl app_handleRealtimeData (application_ready\<lparr>isDataUpdatePaused := True\<rparr>)
        [one_point_packet 5 7])\<lparr>isDataUpdatePaused := False\<rparr> = application_ready"
    and c: "foldl app_handleRealtimeData
           ((foldl app_handleRealtimeData (application_ready\<lparr>isDataUpdatePaused := True\<rparr>)
               [one_point_packet 5 7])\<lparr>isDataUpdatePaused := False\<rparr>) [one_point_packet 5 7]
         = foldl app_handleRealtimeData application_ready [one_point_packet 5 7]"
    by blast+
  have d: "map_option (\<lambda>cm. cm_ppie cm ''p_data'')
        (app_charts (foldl app_handleRealtimeData application_ready [one_point_packet 5 7]))
      = Some (Some [JArray [JNumber (Fin 5), JNumber (Fin 7)]])"
    by (simp add: one_packet_unpaused)
  show ?thesis using h1 h2 a b c d h3 e by simp
qed

end
